theory Spec2Isabelle
  imports Complex_Main
begin

section \<open>Values, errors and the persistent store\<close>

text \<open>
  Object ids are natural numbers handed out by a counter. A \<open>Date\<close> is its number of
  milliseconds since the epoch. The clock of the store record is what \<open>new Date()\<close>
  returns. Time passes while the store handles a write: the environment says how many
  milliseconds each write attempt takes. Reading the store and running code between two
  writes take no time.
\<close>

type_synonym oid = nat
type_synonym time = int

text \<open>
  What a persistence call can throw: a schema validation failure, the duplicate-key error
  of a unique index (the one with \<open>error.code === 11000\<close>), or any other failure of the
  store (connection lost, write refused).
\<close>

datatype error = ValidationError | DuplicateKey | StoreFailure

definition errorCode :: "error \<Rightarrow> nat option" where
  "errorCode e = (case e of DuplicateKey \<Rightarrow> Some 11000 | _ \<Rightarrow> None)"

record medicine =
  med_id :: oid
  name :: string
  barcode :: "string option"
  category :: string
  quantity :: int
  initialStock :: int
  minQuantity :: int
  price :: rat
  expiryDate :: time
  supplier :: "string option"
  batchNumber :: "string option"
  description :: "string option"
  isActive :: bool
  createdBy :: oid
  updatedBy :: "oid option"

record issuance =
  iss_id :: oid
  medicineId :: oid
  issuedTo :: string
  recipientName :: string
  recipientID :: string
  quantityIssued :: int
  prescribedBy :: string
  iss_notes :: "string option"
  issuedBy :: oid
  issuedAt :: time

record user =
  user_id :: oid
  userName :: string
  email :: string
  role :: string
  userIsActive :: bool

record alert =
  alertType :: string
  title :: string
  message :: string
  severity :: string
  entityType :: string
  entityId :: oid
  triggeredBy :: oid
  isRead :: bool
  alertIsActive :: bool
  expiresAt :: time

text \<open>The before/after snapshots of an activity log entry (\<open>Mixed\<close> in the schema).\<close>

datatype snapshot =
    NoData
  | QuantityData int
  | MedicineData medicine
  | ActiveData bool
  | UserData user

record activity =
  actionType :: string
  logEntityType :: string
  logEntityId :: oid
  performedBy :: oid
  logDescription :: string
  oldData :: snapshot
  newData :: snapshot

text \<open>The writes the store has accepted, in the order it accepted them.\<close>

datatype db_write =
    IssuanceInsert oid
  | MedicineInsert oid
  | MedicineUpdate oid
  | UserUpdate oid
  | UserRemove oid
  | ActivityInsert
  | AlertInsert

text \<open>
  The four collections of the core and the user collection, the clock, the id counter,
  the operational log written by \<open>console.error\<close>, and the environment: \<open>faults\<close> says
  for each write attempt (numbered by \<open>tick\<close>) whether the store refuses it, \<open>latency\<close>
  how many milliseconds it takes, and \<open>localTZA\<close> is the offset of the host's time zone,
  the \<open>LocalTZA(t, isUTC)\<close> of the language definition: the offset in force at the
  instant \<open>t\<close>, or at the local time \<open>t\<close> when \<open>isUTC\<close> is false.
\<close>

record world =
  medicines :: "medicine list"
  issuances :: "issuance list"
  activityLogs :: "activity list"
  alerts :: "alert list"
  users :: "user list"
  clock :: time
  nextId :: oid
  tick :: nat
  faults :: "nat \<Rightarrow> bool"
  latency :: "nat \<Rightarrow> nat"
  localTZA :: "time \<Rightarrow> bool \<Rightarrow> int"
  console :: "string list"
  journal :: "db_write list"

subsection \<open>Asynchronous code that may throw\<close>

text \<open>
  An \<open>async\<close> function is a function of the store that returns a value or throws, with
  the store it leaves behind.
\<close>

type_synonym 'a action = "world \<Rightarrow> (error + 'a) \<times> world"

definition ret :: "'a \<Rightarrow> 'a action" where
  "ret x s = (Inr x, s)"

definition throw :: "error \<Rightarrow> 'a action" where
  "throw e s = (Inl e, s)"

definition andThen :: "'a action \<Rightarrow> ('a \<Rightarrow> 'b action) \<Rightarrow> 'b action" where
  "andThen m f s = (case m s of (Inl e, s') \<Rightarrow> (Inl e, s') | (Inr x, s') \<Rightarrow> f x s')"

definition tryCatch :: "'a action \<Rightarrow> (error \<Rightarrow> 'a action) \<Rightarrow> 'a action" where
  "tryCatch body handler s =
     (case body s of (Inl e, s') \<Rightarrow> handler e s' | (Inr x, s') \<Rightarrow> (Inr x, s'))"

definition consoleError :: "string \<Rightarrow> unit action" where
  "consoleError msg s = (Inr (), s\<lparr>console := console s @ [msg]\<rparr>)"

text \<open>
  One write attempt: the environment decides, the attempt is counted, and the clock has
  moved on by the time the store answers.
\<close>

definition attempt :: "unit action" where
  "attempt s =
     (if faults s (tick s)
      then (Inl StoreFailure,
            s\<lparr>tick := Suc (tick s), clock := clock s + int (latency s (tick s))\<rparr>)
      else (Inr (),
            s\<lparr>tick := Suc (tick s), clock := clock s + int (latency s (tick s))\<rparr>))"

definition record_write :: "db_write \<Rightarrow> unit action" where
  "record_write w s = (Inr (), s\<lparr>journal := journal s @ [w]\<rparr>)"

definition freshId :: "oid action" where
  "freshId s = (Inr (nextId s), s\<lparr>nextId := Suc (nextId s)\<rparr>)"

definition now :: "time action" where
  "now s = (Inr (clock s), s)"

subsection \<open>Template literals\<close>

fun digitsOf :: "nat \<Rightarrow> string" where
  "digitsOf n =
     (if n < 10 then [''0123456789'' ! n]
      else digitsOf (n div 10) @ [''0123456789'' ! (n mod 10)])"

declare digitsOf.simps [simp del]

definition showInt :: "int \<Rightarrow> string" where
  "showInt i = (if i < 0 then CHR ''-'' # digitsOf (nat (- i)) else digitsOf (nat i))"

text \<open>
  \<open>Date.prototype.toDateString\<close> is the platform's calendar rendering (weekday, month,
  day and year in the host's zone); the model renders the millisecond count instead. The
  text of the date appears in the message of the expiring alert only, and matters to its
  length alone.
\<close>

definition toDateString :: "time \<Rightarrow> string" where
  "toDateString t = showInt t"

definition dayMs :: int where
  "dayMs = 24 * 60 * 60 * 1000"

text \<open>The instant \<open>n\<close> days of 24 hours after \<open>t\<close>.\<close>

definition addDays :: "int \<Rightarrow> time \<Rightarrow> time" where
  "addDays n t = t + n * dayMs"

text \<open>
  \<open>d.setDate(d.getDate() + n)\<close> works on the local calendar: the instant is taken to
  local time, moved by \<open>n\<close> days there (the time of day is kept), and taken back with
  the offset in force at the local time reached. Across a change of the zone's offset
  the result is not \<open>n\<close> days of 24 hours away.
\<close>

definition setDatePlus :: "(time \<Rightarrow> bool \<Rightarrow> int) \<Rightarrow> int \<Rightarrow> time \<Rightarrow> time" where
  "setDatePlus tza n t =
     (let localTime = t + tza t True;
          newDate = localTime + n * dayMs
      in newDate - tza newDate False)"

definition setDate :: "int \<Rightarrow> time \<Rightarrow> time action" where
  "setDate n t s = (Inr (setDatePlus (localTZA s) n t), s)"

section \<open>models/Alert.js and the activity log schema\<close>

definition alertTypeEnum :: "string list" where
  "alertTypeEnum = [''user_added'', ''stock_low'', ''medicine_expiring'', ''medicine_expired'',
     ''stock_entry'', ''medicine_issued'', ''user_deleted'', ''medicine_added'', ''system'']"

definition severityEnum :: "string list" where
  "severityEnum = [''info'', ''warning'', ''danger'', ''success'']"

definition entityTypeEnum :: "string list" where
  "entityTypeEnum = [''User'', ''Medicine'', ''Issuance'', ''System'']"

definition actionTypeEnum :: "string list" where
  "actionTypeEnum = [''Add'', ''Update'', ''Delete'', ''Issue'', ''Login'', ''Logout'',
     ''Stock In'', ''Stock Out'']"

text \<open>The schema validators run by \<open>save\<close>; a required string must not be empty.\<close>

definition validAlert :: "alert \<Rightarrow> bool" where
  "validAlert a \<longleftrightarrow>
     alertType a \<in> set alertTypeEnum \<and>
     title a \<noteq> [] \<and> length (title a) \<le> 200 \<and>
     message a \<noteq> [] \<and> length (message a) \<le> 500 \<and>
     severity a \<in> set severityEnum \<and>
     entityType a \<in> set entityTypeEnum"

definition validActivity :: "activity \<Rightarrow> bool" where
  "validActivity l \<longleftrightarrow>
     actionType l \<in> set actionTypeEnum \<and>
     logEntityType l \<in> set entityTypeEnum \<and>
     logDescription l \<noteq> [] \<and> length (logDescription l) \<le> 500"

definition newAlert ::
  "string \<Rightarrow> string \<Rightarrow> string \<Rightarrow> string \<Rightarrow> string \<Rightarrow> oid \<Rightarrow> oid \<Rightarrow> alert action" where
  "newAlert ty ttl msg sev etype eid actor s =
     (Inr \<lparr>alertType = ty, title = ttl, message = msg, severity = sev, entityType = etype,
           entityId = eid, triggeredBy = actor, isRead = False, alertIsActive = True,
           expiresAt = clock s + 7 * 24 * 60 * 60 * 1000\<rparr>, s)"

definition saveAlert :: "alert \<Rightarrow> unit action" where
  "saveAlert a =
     (if \<not> validAlert a then throw ValidationError
      else andThen attempt (\<lambda>_. andThen (record_write AlertInsert)
             (\<lambda>_ s. (Inr (), s\<lparr>alerts := alerts s @ [a]\<rparr>))))"

definition saveActivity :: "activity \<Rightarrow> unit action" where
  "saveActivity l =
     (if \<not> validActivity l then throw ValidationError
      else andThen attempt (\<lambda>_. andThen (record_write ActivityInsert)
             (\<lambda>_ s. (Inr (), s\<lparr>activityLogs := activityLogs s @ [l]\<rparr>))))"

section \<open>middleware/alertService.js\<close>

definition createAlert ::
  "string \<Rightarrow> string \<Rightarrow> string \<Rightarrow> string \<Rightarrow> oid \<Rightarrow> oid \<Rightarrow> string \<Rightarrow> alert option action" where
  "createAlert ty ttl msg etype eid actor sev =
     tryCatch
       (andThen (newAlert ty ttl msg sev etype eid actor) (\<lambda>a.
        andThen (saveAlert a) (\<lambda>_. ret (Some a))))
       (\<lambda>e. andThen (consoleError ''Failed to create alert:'') (\<lambda>_. ret None))"

record template =
  t_type :: string
  t_title :: string
  t_message :: string
  t_severity :: string

definition userAlerts :: "string \<Rightarrow> (string \<times> template) list" where
  "userAlerts userName' =
     [(''added'', \<lparr>t_type = ''user_added'', t_title = ''New User Added'',
         t_message = ''New user \"'' @ userName' @ ''\" has been added to the system'',
         t_severity = ''success''\<rparr>),
      (''updated'', \<lparr>t_type = ''user_updated'', t_title = ''User Updated'',
         t_message = ''User \"'' @ userName' @ ''\" details have been updated'',
         t_severity = ''info''\<rparr>),
      (''deleted'', \<lparr>t_type = ''user_deleted'', t_title = ''User Deleted'',
         t_message = ''User \"'' @ userName' @ ''\" has been removed from the system'',
         t_severity = ''warning''\<rparr>)]"

text \<open>
  \<open>alerts[action]\<close> also finds what an object literal inherits from \<open>Object.prototype\<close>.
  Under such a name the lookup gives an object without \<open>type\<close>, \<open>title\<close>, \<open>message\<close> and
  \<open>severity\<close>: \<open>createAlert\<close> is called with undefined fields (rendered empty here, the
  severity taking its default), which the schema refuses.
\<close>

definition objectPrototypeKeys :: "string list" where
  "objectPrototypeKeys = [''constructor'', ''__defineGetter__'', ''__defineSetter__'',
     ''hasOwnProperty'', ''__lookupGetter__'', ''__lookupSetter__'', ''isPrototypeOf'',
     ''propertyIsEnumerable'', ''toString'', ''valueOf'', ''__proto__'', ''toLocaleString'']"

definition createUserAlert :: "string \<Rightarrow> string \<Rightarrow> oid \<Rightarrow> oid \<Rightarrow> alert option action" where
  "createUserAlert action' userName' userId actor =
     (case map_of (userAlerts userName') action' of
        Some alertData \<Rightarrow>
          createAlert (t_type alertData) (t_title alertData) (t_message alertData)
            ''User'' userId actor (t_severity alertData)
      | None \<Rightarrow>
          if action' \<in> set objectPrototypeKeys
          then createAlert [] [] [] ''User'' userId actor ''info''
          else ret None)"

record additionalInfo =
  info_quantity :: "int option"
  info_expiryDate :: "string option"
  info_recipient :: "string option"

definition noInfo :: additionalInfo where
  "noInfo = \<lparr>info_quantity = None, info_expiryDate = None, info_recipient = None\<rparr>"

text \<open>\<open>${x || d}\<close>: a missing, zero or empty \<open>x\<close> is falsy and gives the default.\<close>

definition numberOr :: "int option \<Rightarrow> string \<Rightarrow> string" where
  "numberOr x d = (case x of None \<Rightarrow> d | Some q \<Rightarrow> if q = 0 then d else showInt q)"

definition stringOr :: "string option \<Rightarrow> string \<Rightarrow> string" where
  "stringOr x d = (case x of None \<Rightarrow> d | Some v \<Rightarrow> if v = [] then d else v)"

definition medicineAlerts :: "string \<Rightarrow> additionalInfo \<Rightarrow> (string \<times> template) list" where
  "medicineAlerts medicineName info =
     [(''added'', \<lparr>t_type = ''medicine_added'', t_title = ''New Medicine Added'',
         t_message = ''New medicine \"'' @ medicineName @ ''\" has been added to inventory'',
         t_severity = ''success''\<rparr>),
      (''stock_entry'', \<lparr>t_type = ''stock_entry'', t_title = ''Stock Entry Recorded'',
         t_message = ''Stock entry for \"'' @ medicineName @ ''\" has been recorded. New quantity: ''
            @ numberOr (info_quantity info) ''N/A'',
         t_severity = ''info''\<rparr>),
      (''low_stock'', \<lparr>t_type = ''stock_low'', t_title = ''Low Stock Alert'',
         t_message = ''\"'' @ medicineName @ ''\" is running low. Current stock: ''
            @ numberOr (info_quantity info) ''0'',
         t_severity = ''warning''\<rparr>),
      (''expiring'', \<lparr>t_type = ''medicine_expiring'', t_title = ''Medicine Expiring Soon'',
         t_message = ''\"'' @ medicineName @ ''\" will expire on ''
            @ stringOr (info_expiryDate info) ''N/A'',
         t_severity = ''warning''\<rparr>),
      (''expired'', \<lparr>t_type = ''medicine_expired'', t_title = ''Medicine Expired'',
         t_message = ''\"'' @ medicineName @ ''\" has expired and should be removed from inventory'',
         t_severity = ''danger''\<rparr>),
      (''issued'', \<lparr>t_type = ''medicine_issued'', t_title = ''Medicine Issued'',
         t_message = numberOr (info_quantity info) ''0'' @ '' units of \"'' @ medicineName
            @ ''\" issued to '' @ stringOr (info_recipient info) ''N/A'',
         t_severity = ''info''\<rparr>)]"

definition createMedicineAlert ::
  "string \<Rightarrow> string \<Rightarrow> oid \<Rightarrow> oid \<Rightarrow> additionalInfo \<Rightarrow> alert option action" where
  "createMedicineAlert action' medicineName medicineId' actor info =
     (case map_of (medicineAlerts medicineName info) action' of
        Some alertData \<Rightarrow>
          createAlert (t_type alertData) (t_title alertData) (t_message alertData)
            ''Medicine'' medicineId' actor (t_severity alertData)
      | None \<Rightarrow>
          if action' \<in> set objectPrototypeKeys
          then createAlert [] [] [] ''Medicine'' medicineId' actor ''info''
          else ret None)"

definition whenA :: "bool \<Rightarrow> 'a action \<Rightarrow> unit action" where
  "whenA c m = (if c then andThen m (\<lambda>_. ret ()) else ret ())"

definition checkAndCreateStockAlerts :: "medicine \<Rightarrow> oid \<Rightarrow> unit action" where
  "checkAndCreateStockAlerts m actor =
     andThen (whenA (quantity m \<le> minQuantity m)
       (createMedicineAlert ''low_stock'' (name m) (med_id m) actor
          (noInfo\<lparr>info_quantity := Some (quantity m)\<rparr>))) (\<lambda>_.
     andThen now (\<lambda>t0.
     andThen (setDate 30 t0) (\<lambda>thirtyDaysFromNow.
     andThen now (\<lambda>t1.
     andThen (whenA (expiryDate m \<le> thirtyDaysFromNow \<and> expiryDate m > t1)
       (createMedicineAlert ''expiring'' (name m) (med_id m) actor
          (noInfo\<lparr>info_expiryDate := Some (toDateString (expiryDate m))\<rparr>))) (\<lambda>_.
     andThen now (\<lambda>t2.
     whenA (expiryDate m \<le> t2)
       (createMedicineAlert ''expired'' (name m) (med_id m) actor
          (noInfo\<lparr>info_expiryDate := Some (toDateString (expiryDate m))\<rparr>))))))))"

definition logActivity ::
  "string \<Rightarrow> string \<Rightarrow> oid \<Rightarrow> oid \<Rightarrow> string \<Rightarrow> snapshot \<Rightarrow> snapshot \<Rightarrow> unit action" where
  "logActivity atype etype eid actor descr old new =
     tryCatch
       (saveActivity \<lparr>actionType = atype, logEntityType = etype, logEntityId = eid,
          performedBy = actor, logDescription = descr, oldData = old, newData = new\<rparr>)
       (\<lambda>e. consoleError ''Failed to log activity:'')"

section \<open>models/Medicine.js\<close>

definition categoryEnum :: "string list" where
  "categoryEnum = [''Antibiotics'', ''Painkillers'', ''Supplements'', ''Vaccines'',
     ''Antiseptics'', ''Cardiovascular'', ''Respiratory'', ''Digestive'', ''Neurological'',
     ''Other'']"

definition maxLen :: "nat \<Rightarrow> string option \<Rightarrow> bool" where
  "maxLen n x = (case x of None \<Rightarrow> True | Some v \<Rightarrow> length v \<le> n)"

definition validMedicine :: "medicine \<Rightarrow> bool" where
  "validMedicine m \<longleftrightarrow>
     name m \<noteq> [] \<and> length (name m) \<le> 200 \<and>
     category m \<in> set categoryEnum \<and>
     0 \<le> quantity m \<and> 0 \<le> initialStock m \<and> 1 \<le> minQuantity m \<and> 0 \<le> price m \<and>
     maxLen 200 (supplier m) \<and> maxLen 100 (batchNumber m) \<and> maxLen 500 (description m)"

text \<open>
  The virtuals of the schema, at the instant \<open>t\<close> that \<open>new Date()\<close> returns, in the
  host's time zone.
\<close>

definition isLowStock :: "medicine \<Rightarrow> bool" where
  "isLowStock m \<longleftrightarrow> quantity m \<le> minQuantity m"

definition isExpired :: "time \<Rightarrow> medicine \<Rightarrow> bool" where
  "isExpired t m \<longleftrightarrow> t > expiryDate m"

definition isExpiringSoon :: "(time \<Rightarrow> bool \<Rightarrow> int) \<Rightarrow> time \<Rightarrow> medicine \<Rightarrow> bool" where
  "isExpiringSoon tza t m \<longleftrightarrow> expiryDate m \<le> setDatePlus tza 30 t \<and> expiryDate m > t"

text \<open>\<open>(this.initialStock || 0) - (this.quantity || 0)\<close>\<close>

definition stockOut :: "medicine \<Rightarrow> int" where
  "stockOut m = (if initialStock m = 0 then 0 else initialStock m)
              - (if quantity m = 0 then 0 else quantity m)"

text \<open>
  The index of \<open>barcode\<close> is unique and sparse: among the documents that have a barcode,
  whatever their \<open>isActive\<close>, no two have the same one.
\<close>

definition barcodeIndexClash :: "medicine \<Rightarrow> medicine list \<Rightarrow> bool" where
  "barcodeIndexClash m ms \<longleftrightarrow>
     barcode m \<noteq> None \<and> list_ex (\<lambda>m'. med_id m' \<noteq> med_id m \<and> barcode m' = barcode m) ms"

definition findMedicineById :: "oid \<Rightarrow> medicine option action" where
  "findMedicineById i s = (Inr (find (\<lambda>m. med_id m = i) (medicines s)), s)"

text \<open>\<open>Medicine.findOne({ barcode, isActive: true, _id: { $ne: ... } })\<close>\<close>

definition findActiveByBarcode :: "string \<Rightarrow> oid option \<Rightarrow> medicine option action" where
  "findActiveByBarcode bc except s =
     (Inr (find (\<lambda>m. barcode m = Some bc \<and> isActive m \<and> Some (med_id m) \<noteq> except)
             (medicines s)), s)"

definition insertMedicine :: "medicine \<Rightarrow> unit action" where
  "insertMedicine m =
     (if \<not> validMedicine m then throw ValidationError
      else andThen attempt (\<lambda>_ s.
        if barcodeIndexClash m (medicines s) then (Inl DuplicateKey, s)
        else andThen (record_write (MedicineInsert (med_id m)))
               (\<lambda>_ s. (Inr (), s\<lparr>medicines := medicines s @ [m]\<rparr>)) s))"

definition updateMedicine :: "medicine \<Rightarrow> unit action" where
  "updateMedicine m =
     (if \<not> validMedicine m then throw ValidationError
      else andThen attempt (\<lambda>_ s.
        if barcodeIndexClash m (medicines s) then (Inl DuplicateKey, s)
        else andThen (record_write (MedicineUpdate (med_id m)))
               (\<lambda>_ s. (Inr (), s\<lparr>medicines :=
                  map (\<lambda>m'. if med_id m' = med_id m then m else m') (medicines s)\<rparr>)) s))"

section \<open>models/Issuance.js\<close>

definition issuedToEnum :: "string list" where
  "issuedToEnum = [''GIZ Guest'', ''AZI Guest'', ''Employee'']"

definition validIssuance :: "issuance \<Rightarrow> bool" where
  "validIssuance i \<longleftrightarrow>
     issuedTo i \<in> set issuedToEnum \<and>
     recipientName i \<noteq> [] \<and> length (recipientName i) \<le> 200 \<and>
     recipientID i \<noteq> [] \<and> length (recipientID i) \<le> 100 \<and>
     1 \<le> quantityIssued i \<and>
     prescribedBy i \<noteq> [] \<and> length (prescribedBy i) \<le> 200 \<and>
     maxLen 500 (iss_notes i)"

definition insertIssuance :: "issuance \<Rightarrow> unit action" where
  "insertIssuance i =
     (if \<not> validIssuance i then throw ValidationError
      else andThen attempt (\<lambda>_. andThen (record_write (IssuanceInsert (iss_id i)))
             (\<lambda>_ s. (Inr (), s\<lparr>issuances := issuances s @ [i]\<rparr>))))"

section \<open>HTTP responses\<close>

text \<open>
  A route is run for a caller that \<open>authenticateToken\<close> has let through; the caller's id is
  the first argument of the route. The reply is the status and the body. The \<open>populate\<close>
  calls, which replace the references of the replied document by the names they refer to,
  are left out, as are the address and the user agent kept with an activity log entry.
  Reads of the store (\<open>findById\<close>, \<open>findOne\<close>, \<open>countDocuments\<close>) always succeed; writes
  may be refused.
\<close>

datatype reply =
    Message string
  | Errors
  | MedicineJson medicine
  | IssuanceJson issuance
  | UserJson string user

type_synonym response = "nat \<times> reply"

text \<open>\<open>a ?? b\<close>\<close>

definition nullish :: "'a option \<Rightarrow> 'a \<Rightarrow> 'a" where
  "nullish a b = (case a of None \<Rightarrow> b | Some v \<Rightarrow> v)"

definition lengthIn :: "nat \<Rightarrow> nat \<Rightarrow> string \<Rightarrow> bool" where
  "lengthIn lo hi v \<longleftrightarrow> lo \<le> length v \<and> length v \<le> hi"

definition optionally :: "('a \<Rightarrow> bool) \<Rightarrow> 'a option \<Rightarrow> bool" where
  "optionally P x = (case x of None \<Rightarrow> True | Some v \<Rightarrow> P v)"

section \<open>routes/medicines.js\<close>

text \<open>
  The body of a request after parsing: a numeric field is the integer it denotes, a date
  field the instant it denotes, strings are already trimmed.
\<close>

record medicineBody =
  b_name :: string
  b_category :: string
  b_quantity :: int
  b_minQuantity :: int
  b_price :: rat
  b_expiryDate :: time
  b_barcode :: "string option"
  b_supplier :: "string option"
  b_batchNumber :: "string option"
  b_description :: "string option"

definition validMedicineBody :: "medicineBody \<Rightarrow> bool" where
  "validMedicineBody b \<longleftrightarrow>
     lengthIn 1 200 (b_name b) \<and>
     b_category b \<in> set categoryEnum \<and>
     0 \<le> b_quantity b \<and> 1 \<le> b_minQuantity b \<and> 0 \<le> b_price b \<and>
     maxLen 100 (b_barcode b) \<and> maxLen 200 (b_supplier b) \<and>
     maxLen 100 (b_batchNumber b) \<and> maxLen 500 (b_description b)"

definition postMedicine :: "oid \<Rightarrow> medicineBody \<Rightarrow> response action" where
  "postMedicine actor b =
     tryCatch
       (if \<not> validMedicineBody b then ret (400, Errors)
        else
          andThen (case b_barcode b of
                     None \<Rightarrow> ret None
                   | Some bc \<Rightarrow> if bc \<noteq> [] then findActiveByBarcode bc None else ret None)
            (\<lambda>existingMedicine.
          if existingMedicine \<noteq> None
          then ret (400, Message ''Medicine with this barcode already exists'')
          else
          andThen freshId (\<lambda>i.
          let medicine' = \<lparr>med_id = i, name = b_name b, barcode = b_barcode b,
                category = b_category b, quantity = b_quantity b,
                initialStock = b_quantity b, minQuantity = b_minQuantity b,
                price = b_price b, expiryDate = b_expiryDate b, supplier = b_supplier b,
                batchNumber = b_batchNumber b, description = b_description b,
                isActive = True, createdBy = actor, updatedBy = None\<rparr> in
          andThen (insertMedicine medicine') (\<lambda>_.
          andThen (logActivity ''Add'' ''Medicine'' i actor
                     (''Added new medicine: '' @ name medicine') NoData
                     (MedicineData medicine')) (\<lambda>_.
          andThen (createMedicineAlert ''added'' (name medicine') i actor noInfo) (\<lambda>_.
          andThen (checkAndCreateStockAlerts medicine' actor) (\<lambda>_.
          ret (201, MedicineJson medicine'))))))))
       (\<lambda>e. andThen (consoleError ''Add medicine error:'') (\<lambda>_.
          ret (if errorCode e = Some 11000
               then (400, Message ''Medicine with this barcode already exists'')
               else (500, Message ''Failed to add medicine''))))"

record updateBody =
  u_name :: "string option"
  u_category :: "string option"
  u_quantity :: "int option"
  u_minQuantity :: "int option"
  u_price :: "rat option"
  u_expiryDate :: "time option"
  u_barcode :: "string option"
  u_supplier :: "string option"
  u_batchNumber :: "string option"
  u_description :: "string option"
  u_stockToAdd :: "int option"

definition validUpdateBody :: "updateBody \<Rightarrow> bool" where
  "validUpdateBody b \<longleftrightarrow>
     optionally (lengthIn 1 200) (u_name b) \<and>
     optionally (\<lambda>c. c \<in> set categoryEnum) (u_category b) \<and>
     optionally (\<lambda>q. 0 \<le> q) (u_quantity b) \<and>
     optionally (\<lambda>q. 1 \<le> q) (u_minQuantity b) \<and>
     optionally (\<lambda>p. 0 \<le> p) (u_price b) \<and>
     maxLen 100 (u_barcode b) \<and> maxLen 200 (u_supplier b) \<and>
     maxLen 100 (u_batchNumber b) \<and> maxLen 500 (u_description b)"

text \<open>\<open>parseInt(req.body.stockToAdd) || 0\<close>: a missing or unparsable field is \<open>None\<close>.\<close>

definition parsedStockToAdd :: "updateBody \<Rightarrow> int" where
  "parsedStockToAdd b = (case u_stockToAdd b of None \<Rightarrow> 0 | Some n \<Rightarrow> n)"

text \<open>\<open>req.body.quantity && req.body.quantity > oldQuantity\<close>\<close>

definition bodyQuantityAbove :: "updateBody \<Rightarrow> int \<Rightarrow> bool" where
  "bodyQuantityAbove b oldQuantity =
     (case u_quantity b of None \<Rightarrow> False | Some q \<Rightarrow> q \<noteq> 0 \<and> q > oldQuantity)"

definition addStock :: "int \<Rightarrow> medicine \<Rightarrow> medicine" where
  "addStock stockToAdd m =
     (if stockToAdd > 0
      then m\<lparr>quantity := quantity m + stockToAdd, initialStock := initialStock m + stockToAdd\<rparr>
      else m)"

text \<open>The \<open>Object.assign\<close> of the update route.\<close>

definition assignFields :: "updateBody \<Rightarrow> medicine \<Rightarrow> medicine" where
  "assignFields b m =
     m\<lparr>name := nullish (u_name b) (name m),
       category := nullish (u_category b) (category m),
       price := nullish (u_price b) (price m),
       expiryDate := nullish (u_expiryDate b) (expiryDate m),
       supplier := (case u_supplier b of None \<Rightarrow> supplier m | Some v \<Rightarrow> Some v),
       batchNumber := (case u_batchNumber b of None \<Rightarrow> batchNumber m | Some v \<Rightarrow> Some v),
       barcode := (case u_barcode b of None \<Rightarrow> barcode m | Some v \<Rightarrow> Some v),
       description := (case u_description b of None \<Rightarrow> description m | Some v \<Rightarrow> Some v)\<rparr>"

definition putMedicine :: "oid \<Rightarrow> oid \<Rightarrow> updateBody \<Rightarrow> response action" where
  "putMedicine actor i b =
     tryCatch
       (if \<not> validUpdateBody b then ret (400, Errors)
        else
          andThen (findMedicineById i) (\<lambda>found.
          case found of
            None \<Rightarrow> ret (404, Message ''Medicine not found'')
          | Some medicine' \<Rightarrow>
          if \<not> isActive medicine' then ret (404, Message ''Medicine not found'')
          else
          let oldData' = medicine'; oldQuantity = quantity medicine' in
          andThen (case u_barcode b of
                     None \<Rightarrow> ret None
                   | Some bc \<Rightarrow>
                       if bc \<noteq> [] \<and> Some bc \<noteq> barcode medicine'
                       then findActiveByBarcode bc (Some (med_id medicine'))
                       else ret None) (\<lambda>existing.
          if existing \<noteq> None
          then ret (400, Message ''Medicine with this barcode already exists'')
          else
          let stockToAdd = parsedStockToAdd b;
              medicine1 = addStock stockToAdd medicine';
              medicine2 = assignFields b medicine1;
              medicine3 = medicine2\<lparr>updatedBy := Some actor\<rparr> in
          andThen (updateMedicine medicine3) (\<lambda>_.
          andThen (logActivity ''Update'' ''Medicine'' (med_id medicine3) actor
                     (''Updated medicine: '' @ name medicine3) (MedicineData oldData')
                     (MedicineData medicine3)) (\<lambda>_.
          andThen (whenA (bodyQuantityAbove b oldQuantity)
                     (createMedicineAlert ''stock_entry'' (name medicine3) (med_id medicine3)
                        actor (noInfo\<lparr>info_quantity := Some (quantity medicine3)\<rparr>))) (\<lambda>_.
          andThen (checkAndCreateStockAlerts medicine3 actor) (\<lambda>_.
          ret (200, MedicineJson medicine3))))))))
       (\<lambda>e. andThen (consoleError ''Update medicine error:'') (\<lambda>_.
          ret (if errorCode e = Some 11000
               then (400, Message ''Medicine with this barcode already exists'')
               else (500, Message ''Failed to update medicine''))))"

definition deleteMedicine :: "oid \<Rightarrow> oid \<Rightarrow> response action" where
  "deleteMedicine actor i =
     tryCatch
       (andThen (findMedicineById i) (\<lambda>found.
        case found of
          None \<Rightarrow> ret (404, Message ''Medicine not found'')
        | Some medicine' \<Rightarrow>
        if \<not> isActive medicine' then ret (404, Message ''Medicine not found'')
        else
        let oldData' = medicine';
            medicine1 = medicine'\<lparr>isActive := False, updatedBy := Some actor\<rparr> in
        andThen (updateMedicine medicine1) (\<lambda>_.
        andThen (logActivity ''Delete'' ''Medicine'' (med_id medicine1) actor
                   (''Deleted medicine: '' @ name medicine1) (MedicineData oldData')
                   (ActiveData False)) (\<lambda>_.
        ret (200, Message ''Medicine deleted successfully'')))))
       (\<lambda>e. andThen (consoleError ''Delete medicine error:'') (\<lambda>_.
          ret (500, Message ''Failed to delete medicine'')))"

section \<open>routes/issuances.js\<close>

record issueBody =
  i_medicineId :: oid
  i_issuedTo :: string
  i_recipientName :: string
  i_recipientID :: string
  i_quantityIssued :: int
  i_prescribedBy :: string
  i_notes :: "string option"

definition validIssueBody :: "issueBody \<Rightarrow> bool" where
  "validIssueBody b \<longleftrightarrow>
     i_issuedTo b \<in> set issuedToEnum \<and>
     lengthIn 1 200 (i_recipientName b) \<and>
     lengthIn 1 100 (i_recipientID b) \<and>
     1 \<le> i_quantityIssued b \<and>
     lengthIn 1 200 (i_prescribedBy b) \<and>
     maxLen 500 (i_notes b)"

definition insufficientStock :: "int \<Rightarrow> int \<Rightarrow> string" where
  "insufficientStock available requested =
     ''Insufficient stock. Available: '' @ showInt available @ '', Requested: ''
       @ showInt requested"

definition postIssuance :: "oid \<Rightarrow> issueBody \<Rightarrow> response action" where
  "postIssuance actor b =
     tryCatch
       (if \<not> validIssueBody b then ret (400, Errors)
        else
          let medicineId' = i_medicineId b; quantityIssued' = i_quantityIssued b in
          andThen (findMedicineById medicineId') (\<lambda>found.
          case found of
            None \<Rightarrow> ret (404, Message ''Medicine not found'')
          | Some medicine' \<Rightarrow>
          if \<not> isActive medicine' then ret (404, Message ''Medicine not found'')
          else if quantity medicine' < quantityIssued'
          then ret (400, Message (insufficientStock (quantity medicine') quantityIssued'))
          else
          andThen now (\<lambda>t.
          if expiryDate medicine' \<le> t
          then ret (400, Message ''Cannot issue expired medicine'')
          else
          andThen freshId (\<lambda>i.
          andThen now (\<lambda>t'.
          let issuance' = \<lparr>iss_id = i, medicineId = medicineId', issuedTo = i_issuedTo b,
                recipientName = i_recipientName b, recipientID = i_recipientID b,
                quantityIssued = quantityIssued', prescribedBy = i_prescribedBy b,
                iss_notes = i_notes b, issuedBy = actor, issuedAt = t'\<rparr> in
          andThen (insertIssuance issuance') (\<lambda>_.
          let oldQuantity = quantity medicine';
              medicine1 = medicine'\<lparr>quantity := quantity medicine' - quantityIssued',
                            updatedBy := Some actor\<rparr> in
          andThen (updateMedicine medicine1) (\<lambda>_.
          andThen (logActivity ''Issue'' ''Medicine'' (med_id medicine1) actor
                     (''Issued '' @ showInt quantityIssued' @ '' units of '' @ name medicine1
                        @ '' to '' @ i_recipientName b @ '' ('' @ i_issuedTo b @ '')'')
                     (QuantityData oldQuantity) (QuantityData (quantity medicine1))) (\<lambda>_.
          andThen (createMedicineAlert ''issued'' (name medicine1) (med_id medicine1) actor
                     (noInfo\<lparr>info_quantity := Some quantityIssued',
                             info_recipient := Some (i_recipientName b)\<rparr>)) (\<lambda>_.
          andThen (checkAndCreateStockAlerts medicine1 actor) (\<lambda>_.
          ret (201, IssuanceJson issuance')))))))))))
       (\<lambda>e. andThen (consoleError ''Issue medicine error:'') (\<lambda>_.
          ret (500, Message ''Failed to issue medicine'')))"

section \<open>routes/users.js\<close>

text \<open>
  The user schema is not among the sources: saving a user is modelled with the failures
  of the store only.
\<close>

definition findUserById :: "oid \<Rightarrow> user option action" where
  "findUserById i s = (Inr (find (\<lambda>u. user_id u = i) (users s)), s)"

definition findUserByEmail :: "string \<Rightarrow> oid \<Rightarrow> user option action" where
  "findUserByEmail e except s =
     (Inr (find (\<lambda>u. email u = e \<and> user_id u \<noteq> except) (users s)), s)"

definition countOtherAdmins :: "oid \<Rightarrow> nat action" where
  "countOtherAdmins except s =
     (Inr (length (filter (\<lambda>u. role u = ''Admin'' \<and> user_id u \<noteq> except) (users s))), s)"

definition saveUser :: "user \<Rightarrow> unit action" where
  "saveUser u =
     andThen attempt (\<lambda>_. andThen (record_write (UserUpdate (user_id u)))
       (\<lambda>_ s. (Inr (), s\<lparr>users :=
          map (\<lambda>u'. if user_id u' = user_id u then u else u') (users s)\<rparr>)))"

definition findByIdAndDelete :: "oid \<Rightarrow> unit action" where
  "findByIdAndDelete i =
     andThen attempt (\<lambda>_. andThen (record_write (UserRemove i))
       (\<lambda>_ s. (Inr (), s\<lparr>users := filter (\<lambda>u. user_id u \<noteq> i) (users s)\<rparr>)))"

text \<open>
  A body field whose validator belongs to the validation library (\<open>isEmail\<close>,
  \<open>isBoolean\<close>): the library has refused it, or it has accepted it and the field holds
  the value it denotes (the address after \<open>normalizeEmail\<close>, the boolean).
\<close>

datatype 'a checked = Refused | Accepted 'a

definition isAccepted :: "'a checked \<Rightarrow> bool" where
  "isAccepted f = (case f of Refused \<Rightarrow> False | Accepted v \<Rightarrow> True)"

definition valueOr :: "'a checked option \<Rightarrow> 'a \<Rightarrow> 'a" where
  "valueOr f d = (case f of Some (Accepted v) \<Rightarrow> v | _ \<Rightarrow> d)"

record userBody =
  ub_name :: "string option"
  ub_email :: "string checked option"
  ub_role :: "string option"
  ub_isActive :: "bool checked option"

definition validUserBody :: "userBody \<Rightarrow> bool" where
  "validUserBody b \<longleftrightarrow>
     optionally (lengthIn 2 100) (ub_name b) \<and>
     optionally isAccepted (ub_email b) \<and>
     optionally (\<lambda>r. r \<in> set [''Admin'', ''Pharmacist'']) (ub_role b) \<and>
     optionally isAccepted (ub_isActive b)"

text \<open>\<open>Object.assign(user, req.body)\<close>\<close>

definition assignUser :: "userBody \<Rightarrow> user \<Rightarrow> user" where
  "assignUser b u =
     u\<lparr>userName := nullish (ub_name b) (userName u),
       email := valueOr (ub_email b) (email u),
       role := nullish (ub_role b) (role u),
       userIsActive := valueOr (ub_isActive b) (userIsActive u)\<rparr>"

definition putUser :: "oid \<Rightarrow> oid \<Rightarrow> userBody \<Rightarrow> response action" where
  "putUser actor i b =
     tryCatch
       (if \<not> validUserBody b then ret (400, Errors)
        else
          andThen (findUserById i) (\<lambda>found.
          case found of
            None \<Rightarrow> ret (404, Message ''User not found'')
          | Some user' \<Rightarrow>
          let oldData' = user' in
          andThen (case ub_email b of
                     None \<Rightarrow> ret None
                   | Some e \<Rightarrow>
                       if valueOr (Some e) [] \<noteq> [] \<and> valueOr (Some e) [] \<noteq> email user'
                       then findUserByEmail (valueOr (Some e) []) (user_id user')
                       else ret None) (\<lambda>existingUser.
          if existingUser \<noteq> None
          then ret (400, Message ''User with this email already exists'')
          else
          let user1 = assignUser b user' in
          andThen (saveUser user1) (\<lambda>_.
          andThen (logActivity ''Update'' ''User'' (user_id user1) actor
                     (''Updated user: '' @ userName user1) (UserData oldData')
                     (UserData user1)) (\<lambda>_.
          andThen (createUserAlert ''updated'' (userName user1) (user_id user1) actor) (\<lambda>_.
          ret (200, UserJson ''User updated successfully'' user1)))))))
       (\<lambda>e. andThen (consoleError ''Update user error:'') (\<lambda>_.
          ret (500, Message ''Failed to update user'')))"

definition deleteUser :: "oid \<Rightarrow> oid \<Rightarrow> response action" where
  "deleteUser actor i =
     tryCatch
       (andThen (findUserById i) (\<lambda>found.
        case found of
          None \<Rightarrow> ret (404, Message ''User not found'')
        | Some user' \<Rightarrow>
        andThen (if role user' = ''Admin'' then countOtherAdmins (user_id user')
                 else ret 1) (\<lambda>adminCount.
        if role user' = ''Admin'' \<and> adminCount = 0
        then ret (400, Message ''Cannot delete the last admin user'')
        else if user_id user' = actor
        then ret (400, Message ''Cannot delete your own account'')
        else
        let userData = user' in
        andThen (findByIdAndDelete i) (\<lambda>_.
        andThen (logActivity ''Delete'' ''User'' (user_id user') actor
                   (''Deleted user: '' @ userName user') (UserData userData) NoData) (\<lambda>_.
        andThen (createUserAlert ''deleted'' (userName user') (user_id user') actor) (\<lambda>_.
        ret (200, Message ''User deleted successfully'')))))))
       (\<lambda>e. andThen (consoleError ''Delete user error:'') (\<lambda>_.
          ret (500, Message ''Failed to delete user'')))"

section \<open>routes/reports.js, routes/dashboard.js and the listing queries\<close>

text \<open>
  The queries read the clock twice, once for \<open>now\<close> and once for the date that
  \<open>setDate\<close> moves 30 (or 60) days ahead.
\<close>

record expiryReport =
  expired :: "medicine list"
  expiringSoon :: "medicine list"
  expiringLater :: "medicine list"

definition getExpiryReport :: "expiryReport action" where
  "getExpiryReport =
     andThen now (\<lambda>now'.
     andThen now (\<lambda>t1.
     andThen (setDate 30 t1) (\<lambda>thirtyDaysFromNow.
     andThen now (\<lambda>t2.
     andThen (setDate 60 t2) (\<lambda>sixtyDaysFromNow.
     (\<lambda>s. (Inr \<lparr>
        expired = sort_key expiryDate
          (filter (\<lambda>m. isActive m \<and> expiryDate m < now') (medicines s)),
        expiringSoon = sort_key expiryDate
          (filter (\<lambda>m. isActive m \<and> expiryDate m \<ge> now' \<and> expiryDate m \<le> thirtyDaysFromNow)
             (medicines s)),
        expiringLater = sort_key expiryDate
          (filter (\<lambda>m. isActive m \<and> expiryDate m > thirtyDaysFromNow
                         \<and> expiryDate m \<le> sixtyDaysFromNow) (medicines s))\<rparr>, s)))))))"

text \<open>
  \<open>{ isActive: true, expiryDate: { $lte: thirtyDaysFromNow, $gt: new Date() } }\<close>: the
  query of the dashboard count, of \<open>/alerts/expiring\<close>, of the medicine listing and of the
  inventory report with \<open>expiring=true\<close>.
\<close>

definition findExpiring :: "medicine list action" where
  "findExpiring =
     andThen now (\<lambda>t0.
     andThen (setDate 30 t0) (\<lambda>thirtyDaysFromNow.
     andThen now (\<lambda>t1.
     (\<lambda>s. (Inr (filter (\<lambda>m. isActive m \<and> expiryDate m \<le> thirtyDaysFromNow
                               \<and> expiryDate m > t1) (medicines s)), s)))))"

definition dashboardExpiringMedicines :: "nat action" where
  "dashboardExpiringMedicines = andThen findExpiring (\<lambda>ms. ret (length ms))"

section \<open>Predicates of the verification\<close>

text \<open>
  The result of running an action from a store satisfies \<open>Q\<close>: the value or the thrown
  error, and the store left behind.
\<close>

definition post :: "'a action \<Rightarrow> world \<Rightarrow> ((error + 'a) \<Rightarrow> world \<Rightarrow> bool) \<Rightarrow> bool" where
  "post m s Q \<longleftrightarrow> (case m s of (r, s') \<Rightarrow> Q r s')"

text \<open>
  Two stores differ by best-effort side channels only: the medicines, the issuance ledger,
  the users, the id counter and the environment are the same, the clock has not gone
  back, and the journal has grown by activity-log and alert inserts only.
\<close>

definition sideOnly :: "world \<Rightarrow> world \<Rightarrow> bool" where
  "sideOnly s s' \<longleftrightarrow>
     medicines s' = medicines s \<and> issuances s' = issuances s \<and> users s' = users s \<and>
     clock s \<le> clock s' \<and> nextId s' = nextId s \<and> faults s' = faults s \<and>
     latency s' = latency s \<and> localTZA s' = localTZA s \<and>
     (\<exists>ws. journal s' = journal s @ ws \<and> set ws \<subseteq> {ActivityInsert, AlertInsert})"

text \<open>An action that never throws and touches the side channels only.\<close>

definition sideAction :: "'a action \<Rightarrow> bool" where
  "sideAction m \<longleftrightarrow> (\<forall>s. \<exists>x s'. m s = (Inr x, s') \<and> sideOnly s s')"

text \<open>A side-channel action that returns \<open>r\<close>.\<close>

definition sideReturns :: "'a action \<Rightarrow> 'a \<Rightarrow> bool" where
  "sideReturns m r \<longleftrightarrow> (\<forall>s. \<exists>s'. m s = (Inr r, s') \<and> sideOnly s s')"

text \<open>An action keeps a property of the store, whether it returns or throws.\<close>

definition preserves :: "(world \<Rightarrow> bool) \<Rightarrow> 'a action \<Rightarrow> bool" where
  "preserves I m \<longleftrightarrow> (\<forall>s. I s \<longrightarrow> I (snd (m s)))"

text \<open>A property of the medicines collection alone.\<close>

definition medOnly :: "(world \<Rightarrow> bool) \<Rightarrow> bool" where
  "medOnly I \<longleftrightarrow> (\<forall>s s'. medicines s' = medicines s \<longrightarrow> I s' = I s)"

text \<open>The stock invariant of one record and of the store.\<close>

definition recInv :: "medicine \<Rightarrow> bool" where
  "recInv m \<longleftrightarrow> 0 \<le> quantity m \<and> quantity m \<le> initialStock m"

definition stockInv :: "world \<Rightarrow> bool" where
  "stockInv s \<longleftrightarrow> list_all recInv (medicines s)"

text \<open>
  The store holds its medicines consistently: every record passes the schema, and the
  unique index of \<open>barcode\<close> holds.
\<close>

definition consistent :: "world \<Rightarrow> bool" where
  "consistent s \<longleftrightarrow>
     list_all (\<lambda>m. validMedicine m \<and> \<not> barcodeIndexClash m (medicines s)) (medicines s)"

text \<open>The quantity on hand of the record with a given id.\<close>

definition quantityOf :: "oid \<Rightarrow> world \<Rightarrow> int option" where
  "quantityOf i s = map_option quantity (find (\<lambda>m. med_id m = i) (medicines s))"

text \<open>No record of \<open>s0\<close> has disappeared or lost quantity in \<open>s\<close>.\<close>

definition noDecrease :: "world \<Rightarrow> world \<Rightarrow> bool" where
  "noDecrease s0 s \<longleftrightarrow>
     (\<forall>i q0. quantityOf i s0 = Some q0 \<longrightarrow> (\<exists>q. quantityOf i s = Some q \<and> q0 \<le> q))"

text \<open>\<open>a\<close> occurs in the list and \<open>b\<close> occurs after its first occurrence.\<close>

definition precedes :: "'a \<Rightarrow> 'a \<Rightarrow> 'a list \<Rightarrow> bool" where
  "precedes a b ws \<longleftrightarrow> b \<in> set (tl (dropWhile (\<lambda>w. w \<noteq> a) ws))"

text \<open>The record holds at least the quantity that the store \<open>s0\<close> holds under its id.\<close>

definition atLeastStored :: "world \<Rightarrow> medicine \<Rightarrow> bool" where
  "atLeastStored s0 m \<longleftrightarrow> (\<forall>q0. quantityOf (med_id m) s0 = Some q0 \<longrightarrow> q0 \<le> quantity m)"




section \<open>Sequences of requests\<close>

text \<open>
  The requests of an authenticated caller (the first argument is the caller's id), and the
  passing of time between requests.
\<close>

datatype request =
    AddMedicine oid medicineBody
  | UpdateMedicine oid oid updateBody
  | DeleteMedicine oid oid
  | IssueMedicine oid issueBody
  | UpdateUser oid oid userBody
  | DeleteUser oid oid
  | Elapse nat

fun handle :: "request \<Rightarrow> world \<Rightarrow> world" where
  "handle (AddMedicine actor b) s = snd (postMedicine actor b s)"
| "handle (UpdateMedicine actor i b) s = snd (putMedicine actor i b s)"
| "handle (DeleteMedicine actor i) s = snd (deleteMedicine actor i s)"
| "handle (IssueMedicine actor b) s = snd (postIssuance actor b s)"
| "handle (UpdateUser actor i b) s = snd (putUser actor i b s)"
| "handle (DeleteUser actor i) s = snd (deleteUser actor i s)"
| "handle (Elapse d) s = s\<lparr>clock := clock s + int d\<rparr>"

fun serve :: "request list \<Rightarrow> world \<Rightarrow> world" where
  "serve [] s = s"
| "serve (r # rs) s = serve rs (handle r s)"

section \<open>Example data\<close>

definition paracetamol :: medicine where
  "paracetamol = \<lparr>med_id = 1, name = ''Paracetamol'', barcode = Some ''590123'',
     category = ''Painkillers'', quantity = 5, initialStock = 5, minQuantity = 10,
     price = 2, expiryDate = 9000000000, supplier = None, batchNumber = None,
     description = None, isActive = True, createdBy = 7, updatedBy = None\<rparr>"

definition pharmacy :: world where
  "pharmacy = \<lparr>medicines = [paracetamol], issuances = [], activityLogs = [], alerts = [],
     users = [], clock = 1000000000, nextId = 100, tick = 0, faults = (\<lambda>_. False),
     latency = (\<lambda>_. 0), localTZA = (\<lambda>_ _. 0), console = [], journal = []\<rparr>"

definition issueRequest :: "int \<Rightarrow> issueBody" where
  "issueRequest q = \<lparr>i_medicineId = 1, i_issuedTo = ''Employee'', i_recipientName = ''Ada'',
     i_recipientID = ''E-17'', i_quantityIssued = q, i_prescribedBy = ''Dr. Grace'',
     i_notes = None\<rparr>"

definition emptyStore :: world where
  "emptyStore = \<lparr>medicines = [], issuances = [], activityLogs = [], alerts = [],
     users = [], clock = 1000000000, nextId = 1, tick = 0, faults = (\<lambda>_. False),
     latency = (\<lambda>_. 0), localTZA = (\<lambda>_ _. 0), console = [], journal = []\<rparr>"

definition newParacetamol :: medicineBody where
  "newParacetamol = \<lparr>b_name = ''Paracetamol'', b_category = ''Painkillers'', b_quantity = 5,
     b_minQuantity = 10, b_price = 2, b_expiryDate = 9000000000, b_barcode = Some ''590123'',
     b_supplier = None, b_batchNumber = None, b_description = None\<rparr>"

definition noChange :: updateBody where
  "noChange = \<lparr>u_name = None, u_category = None, u_quantity = None, u_minQuantity = None,
     u_price = None, u_expiryDate = None, u_barcode = None, u_supplier = None,
     u_batchNumber = None, u_description = None, u_stockToAdd = None\<rparr>"

text \<open>
  The scenario of the specification: a medicine is created with 5 units and a threshold
  of 10, then 2 units are issued, then 20 units are added.
\<close>

definition scenario :: "request list" where
  "scenario = [AddMedicine 7 newParacetamol, IssueMedicine 7 (issueRequest 2),
     UpdateMedicine 7 1 (noChange\<lparr>u_stockToAdd := Some 20\<rparr>)]"

text \<open>The pharmacy at the instant the paracetamol expires.\<close>

definition atExpiry :: world where
  "atExpiry = pharmacy\<lparr>clock := 9000000000\<rparr>"

text \<open>The pharmacy while the store refuses every write.\<close>

definition outage :: world where
  "outage = pharmacy\<lparr>faults := (\<lambda>_. True)\<rparr>"

definition clinic :: world where
  "clinic = emptyStore\<lparr>users :=
     [\<lparr>user_id = 7, userName = ''Root'', email = ''root@apms.test'', role = ''Admin'',
        userIsActive = True\<rparr>,
      \<lparr>user_id = 3, userName = ''Bob'', email = ''bob@apms.test'', role = ''Pharmacist'',
        userIsActive = True\<rparr>]\<rparr>"

definition rename :: userBody where
  "rename = \<lparr>ub_name = Some ''Robert'', ub_email = None, ub_role = None, ub_isActive = None\<rparr>"

text \<open>The pharmacy after its paracetamol has been soft-deleted.\<close>

definition archive :: world where
  "archive = pharmacy\<lparr>medicines := [paracetamol\<lparr>isActive := False\<rparr>]\<rparr>"

definition ibuprofen :: medicine where
  "ibuprofen = paracetamol\<lparr>med_id := 2, name := ''Ibuprofen'', barcode := Some ''400567''\<rparr>"

definition twoMedicines :: world where
  "twoMedicines = pharmacy\<lparr>medicines := [paracetamol, ibuprofen]\<rparr>"

text \<open>The pharmacy when the store refuses the second write it is asked for.\<close>

definition secondWriteFails :: world where
  "secondWriteFails = pharmacy\<lparr>faults := (\<lambda>t. t = 1)\<rparr>"

text \<open>
  The pharmacy 8 ms before the paracetamol expires, with a store that takes 5 ms for each
  write.
\<close>

definition slowStore :: world where
  "slowStore = pharmacy\<lparr>clock := 8999999992, latency := (\<lambda>_. 5)\<rparr>"

text \<open>
  The pharmacy on a host whose zone moves its clocks forward by an hour within the next
  30 days.
\<close>

definition clockChange :: world where
  "clockChange = pharmacy\<lparr>localTZA := (\<lambda>t _. if t < 2000000000 then 3600000 else 7200000)\<rparr>"

section \<open>Rules for running actions\<close>

lemma post_ret: "post (ret x) s Q = Q (Inr x) s"
  by (simp add: post_def ret_def)

lemma post_throw: "post (throw e) s Q = Q (Inl e) s"
  by (simp add: post_def throw_def)

lemma post_andThen:
  "post (andThen m f) s Q =
     post m s (\<lambda>r s'. case r of Inl e \<Rightarrow> Q (Inl e) s' | Inr x \<Rightarrow> post (f x) s' Q)"
  by (simp add: post_def andThen_def split: prod.split sum.split)

lemma post_tryCatch:
  "post (tryCatch m h) s Q =
     post m s (\<lambda>r s'. case r of Inl e \<Rightarrow> post (h e) s' Q | Inr x \<Rightarrow> Q (Inr x) s')"
  by (simp add: post_def tryCatch_def split: prod.split sum.split)

lemma post_now: "post now s Q = Q (Inr (clock s)) s"
  by (simp add: post_def now_def)

lemma post_setDate: "post (setDate n t) s Q = Q (Inr (setDatePlus (localTZA s) n t)) s"
  by (simp add: post_def setDate_def)

lemma post_freshId: "post freshId s Q = Q (Inr (nextId s)) (s\<lparr>nextId := Suc (nextId s)\<rparr>)"
  by (simp add: post_def freshId_def)

lemma post_consoleError:
  "post (consoleError msg) s Q = Q (Inr ()) (s\<lparr>console := console s @ [msg]\<rparr>)"
  by (simp add: post_def consoleError_def)

lemma post_attempt:
  "post attempt s Q =
     (if faults s (tick s)
      then Q (Inl StoreFailure)
             (s\<lparr>tick := Suc (tick s), clock := clock s + int (latency s (tick s))\<rparr>)
      else Q (Inr ()) (s\<lparr>tick := Suc (tick s), clock := clock s + int (latency s (tick s))\<rparr>))"
  by (simp add: post_def attempt_def)

lemma post_record_write:
  "post (record_write w) s Q = Q (Inr ()) (s\<lparr>journal := journal s @ [w]\<rparr>)"
  by (simp add: post_def record_write_def)

lemma post_findMedicineById:
  "post (findMedicineById i) s Q = Q (Inr (find (\<lambda>m. med_id m = i) (medicines s))) s"
  by (simp add: post_def findMedicineById_def)

lemma post_findActiveByBarcode:
  "post (findActiveByBarcode bc ex) s Q =
     Q (Inr (find (\<lambda>m. barcode m = Some bc \<and> isActive m \<and> Some (med_id m) \<noteq> ex)
               (medicines s))) s"
  by (simp add: post_def findActiveByBarcode_def)

lemma post_insertIssuance:
  "post (insertIssuance i) s Q =
     (if \<not> validIssuance i then Q (Inl ValidationError) s
      else if faults s (tick s) then Q (Inl StoreFailure) (s\<lparr>tick := Suc (tick s), clock := clock s + int (latency s (tick s))\<rparr>)
      else Q (Inr ()) (s\<lparr>tick := Suc (tick s), clock := clock s + int (latency s (tick s)),
             journal := journal s @ [IssuanceInsert (iss_id i)],
             issuances := issuances s @ [i]\<rparr>))"
  by (simp add: insertIssuance_def post_andThen post_throw post_attempt post_record_write)
     (simp add: post_def)

lemma post_updateMedicine:
  "post (updateMedicine m) s Q =
     (if \<not> validMedicine m then Q (Inl ValidationError) s
      else if faults s (tick s) then Q (Inl StoreFailure) (s\<lparr>tick := Suc (tick s), clock := clock s + int (latency s (tick s))\<rparr>)
      else if barcodeIndexClash m (medicines s)
      then Q (Inl DuplicateKey) (s\<lparr>tick := Suc (tick s), clock := clock s + int (latency s (tick s))\<rparr>)
      else Q (Inr ()) (s\<lparr>tick := Suc (tick s), clock := clock s + int (latency s (tick s)),
             journal := journal s @ [MedicineUpdate (med_id m)],
             medicines := map (\<lambda>m'. if med_id m' = med_id m then m else m') (medicines s)\<rparr>))"
  by (simp add: updateMedicine_def post_andThen post_throw post_attempt post_record_write)
     (simp add: post_def andThen_def record_write_def)

lemma post_insertMedicine:
  "post (insertMedicine m) s Q =
     (if \<not> validMedicine m then Q (Inl ValidationError) s
      else if faults s (tick s) then Q (Inl StoreFailure) (s\<lparr>tick := Suc (tick s), clock := clock s + int (latency s (tick s))\<rparr>)
      else if barcodeIndexClash m (medicines s)
      then Q (Inl DuplicateKey) (s\<lparr>tick := Suc (tick s), clock := clock s + int (latency s (tick s))\<rparr>)
      else Q (Inr ()) (s\<lparr>tick := Suc (tick s), clock := clock s + int (latency s (tick s)),
             journal := journal s @ [MedicineInsert (med_id m)],
             medicines := medicines s @ [m]\<rparr>))"
  by (simp add: insertMedicine_def post_andThen post_throw post_attempt post_record_write)
     (simp add: post_def andThen_def record_write_def)

lemma post_findUserById:
  "post (findUserById i) s Q = Q (Inr (find (\<lambda>u. user_id u = i) (users s))) s"
  by (simp add: post_def findUserById_def)

lemma post_findUserByEmail:
  "post (findUserByEmail e ex) s Q =
     Q (Inr (find (\<lambda>u. email u = e \<and> user_id u \<noteq> ex) (users s))) s"
  by (simp add: post_def findUserByEmail_def)

lemma post_countOtherAdmins:
  "post (countOtherAdmins ex) s Q =
     Q (Inr (length (filter (\<lambda>u. role u = ''Admin'' \<and> user_id u \<noteq> ex) (users s)))) s"
  by (simp add: post_def countOtherAdmins_def)

lemma post_saveUser:
  "post (saveUser u) s Q =
     (if faults s (tick s) then Q (Inl StoreFailure) (s\<lparr>tick := Suc (tick s), clock := clock s + int (latency s (tick s))\<rparr>)
      else Q (Inr ()) (s\<lparr>tick := Suc (tick s), clock := clock s + int (latency s (tick s)), journal := journal s @ [UserUpdate (user_id u)],
             users := map (\<lambda>u'. if user_id u' = user_id u then u else u') (users s)\<rparr>))"
  by (simp add: saveUser_def post_andThen post_attempt post_record_write) (simp add: post_def)

lemma post_findByIdAndDelete:
  "post (findByIdAndDelete i) s Q =
     (if faults s (tick s) then Q (Inl StoreFailure) (s\<lparr>tick := Suc (tick s), clock := clock s + int (latency s (tick s))\<rparr>)
      else Q (Inr ()) (s\<lparr>tick := Suc (tick s), clock := clock s + int (latency s (tick s)), journal := journal s @ [UserRemove i],
             users := filter (\<lambda>u. user_id u \<noteq> i) (users s)\<rparr>))"
  by (simp add: findByIdAndDelete_def post_andThen post_attempt post_record_write)
     (simp add: post_def)

lemmas post_user_simps = post_findUserById post_findUserByEmail post_countOtherAdmins
  post_saveUser post_findByIdAndDelete

lemmas post_simps = post_ret post_throw post_andThen post_tryCatch post_now post_setDate
  post_freshId
  post_consoleError post_findMedicineById post_findActiveByBarcode post_insertIssuance
  post_updateMedicine post_insertMedicine

lemma post_result: "post m s Q \<Longrightarrow> \<exists>r s'. m s = (r, s') \<and> Q r s'"
  by (cases "m s") (simp add: post_def)

lemma post_unfold: "post m s Q = Q (fst (m s)) (snd (m s))"
  by (simp add: post_def case_prod_beta)

section \<open>The side channels\<close>

lemma sideOnly_refl: "sideOnly s s"
  by (simp add: sideOnly_def)

lemma sideOnly_trans: "sideOnly s s' \<Longrightarrow> sideOnly s' s'' \<Longrightarrow> sideOnly s s''"
  by (auto simp: sideOnly_def)

lemma sideAction_ret: "sideAction (ret x)"
  by (simp add: sideAction_def ret_def sideOnly_refl)

lemma sideAction_now: "sideAction now"
  by (simp add: sideAction_def now_def sideOnly_refl)

lemma sideAction_setDate: "sideAction (setDate n t)"
  by (simp add: sideAction_def setDate_def sideOnly_refl)

lemma sideAction_andThen:
  assumes "sideAction m" and "\<And>x. sideAction (f x)"
  shows "sideAction (andThen m f)"
  unfolding sideAction_def
proof
  fix s
  from assms(1) obtain x s1 where m: "m s = (Inr x, s1)" and s1: "sideOnly s s1"
    unfolding sideAction_def by blast
  from assms(2) obtain y s2 where f: "f x s1 = (Inr y, s2)" and s2: "sideOnly s1 s2"
    unfolding sideAction_def by blast
  have "andThen m f s = (Inr y, s2)" by (simp add: andThen_def m f)
  with sideOnly_trans[OF s1 s2] show "\<exists>x s'. andThen m f s = (Inr x, s') \<and> sideOnly s s'"
    by blast
qed

lemma createAlert_cases:
  "createAlert ty ttl msg etype eid actor sev s =
     (let a = \<lparr>alertType = ty, title = ttl, message = msg, severity = sev, entityType = etype,
           entityId = eid, triggeredBy = actor, isRead = False, alertIsActive = True,
           expiresAt = clock s + 7 * 24 * 60 * 60 * 1000\<rparr> in
      if \<not> validAlert a
      then (Inr None, s\<lparr>console := console s @ [''Failed to create alert:'']\<rparr>)
      else if faults s (tick s)
      then (Inr None, s\<lparr>tick := Suc (tick s), clock := clock s + int (latency s (tick s)),
              console := console s @ [''Failed to create alert:'']\<rparr>)
      else (Inr (Some a), s\<lparr>tick := Suc (tick s), clock := clock s + int (latency s (tick s)), journal := journal s @ [AlertInsert],
              alerts := alerts s @ [a]\<rparr>))"
  by (simp add: createAlert_def tryCatch_def andThen_def newAlert_def saveAlert_def throw_def
      attempt_def record_write_def consoleError_def ret_def Let_def)

lemma logActivity_cases:
  "logActivity atype etype eid actor descr old new s =
     (let l = \<lparr>actionType = atype, logEntityType = etype, logEntityId = eid,
          performedBy = actor, logDescription = descr, oldData = old, newData = new\<rparr> in
      if \<not> validActivity l
      then (Inr (), s\<lparr>console := console s @ [''Failed to log activity:'']\<rparr>)
      else if faults s (tick s)
      then (Inr (), s\<lparr>tick := Suc (tick s), clock := clock s + int (latency s (tick s)),
              console := console s @ [''Failed to log activity:'']\<rparr>)
      else (Inr (), s\<lparr>tick := Suc (tick s), clock := clock s + int (latency s (tick s)), journal := journal s @ [ActivityInsert],
              activityLogs := activityLogs s @ [l]\<rparr>))"
  by (simp add: logActivity_def tryCatch_def andThen_def saveActivity_def throw_def
      attempt_def record_write_def consoleError_def ret_def Let_def)

lemma sideAction_createAlert: "sideAction (createAlert ty ttl msg etype eid actor sev)"
  by (simp add: sideAction_def createAlert_cases Let_def sideOnly_def)

lemma sideAction_logActivity: "sideAction (logActivity atype etype eid actor descr old new)"
  by (simp add: sideAction_def logActivity_cases Let_def sideOnly_def)

lemma sideAction_createMedicineAlert: "sideAction (createMedicineAlert a n i actor info)"
  by (simp add: createMedicineAlert_def sideAction_createAlert sideAction_ret
      split: option.split)

lemma sideAction_createUserAlert: "sideAction (createUserAlert a n i actor)"
  by (simp add: createUserAlert_def sideAction_createAlert sideAction_ret split: option.split)

lemma sideAction_whenA: "sideAction m \<Longrightarrow> sideAction (whenA c m)"
  by (simp add: whenA_def sideAction_andThen sideAction_ret)

lemma sideAction_check: "sideAction (checkAndCreateStockAlerts m actor)"
  unfolding checkAndCreateStockAlerts_def Let_def
  by (intro sideAction_andThen sideAction_whenA sideAction_createMedicineAlert sideAction_now
      sideAction_setDate)

lemmas side_intros = sideAction_logActivity sideAction_createMedicineAlert
  sideAction_createUserAlert sideAction_check sideAction_whenA

lemma post_side:
  assumes "sideAction m" and "\<And>x s'. sideOnly s s' \<Longrightarrow> Q (Inr x) s'"
  shows "post m s Q"
proof -
  from assms(1) obtain x s' where "m s = (Inr x, s')" "sideOnly s s'"
    unfolding sideAction_def by blast
  with assms(2) show ?thesis by (simp add: post_def)
qed

lemma sideReturns_ret: "sideReturns (ret r) r"
  by (simp add: sideReturns_def ret_def sideOnly_refl)

lemma sideReturns_andThen:
  assumes "sideAction m" and "\<And>x. sideReturns (f x) r"
  shows "sideReturns (andThen m f) r"
  unfolding sideReturns_def
proof
  fix s
  from assms(1) obtain x s1 where m: "m s = (Inr x, s1)" and s1: "sideOnly s s1"
    unfolding sideAction_def by blast
  from assms(2) obtain s2 where f: "f x s1 = (Inr r, s2)" and s2: "sideOnly s1 s2"
    unfolding sideReturns_def by blast
  have "andThen m f s = (Inr r, s2)" by (simp add: andThen_def m f)
  with sideOnly_trans[OF s1 s2] show "\<exists>s'. andThen m f s = (Inr r, s') \<and> sideOnly s s'"
    by blast
qed

lemma post_sideReturns:
  assumes "sideReturns m r" and "\<And>s'. sideOnly s s' \<Longrightarrow> Q (Inr r) s'"
  shows "post m s Q"
proof -
  from assms(1) obtain s' where "m s = (Inr r, s')" "sideOnly s s'"
    unfolding sideReturns_def by blast
  with assms(2) show ?thesis by (simp add: post_def)
qed

lemmas post_steps = post_ret post_throw post_tryCatch post_now post_setDate post_freshId
  post_consoleError post_findMedicineById post_findActiveByBarcode post_insertIssuance
  post_updateMedicine post_insertMedicine post_user_simps
  post_andThen[where m = now] post_andThen[where m = freshId]
  post_andThen[where m = "setDate n t" for n t]
  post_andThen[where m = "findMedicineById i" for i]
  post_andThen[where m = "findActiveByBarcode i e" for i e]
  post_andThen[where m = "insertIssuance i" for i]
  post_andThen[where m = "insertMedicine i" for i]
  post_andThen[where m = "updateMedicine i" for i]
  post_andThen[where m = "consoleError i" for i]
  post_andThen[where m = "findUserById i" for i]
  post_andThen[where m = "findUserByEmail i e" for i e]
  post_andThen[where m = "countOtherAdmins i" for i]
  post_andThen[where m = "saveUser i" for i]
  post_andThen[where m = "findByIdAndDelete i" for i]
  post_andThen[where m = "ret i" for i]
  post_andThen[where m = "case_option a b c" for a b c]
  post_andThen[where m = "If a b c" for a b c]

lemmas side_tail = sideReturns_andThen sideReturns_ret side_intros

section \<open>Evaluating the routes on given data\<close>

lemma post_weak_cong: "s = s' \<Longrightarrow> post m s Q = post m s' Q"
  by simp

lemma post_if: "post (if c then a else b) s Q = (if c then post a s Q else post b s Q)"
  by simp

lemma post_case_option:
  "post (case x of None \<Rightarrow> a | Some v \<Rightarrow> f v) s Q =
     (case x of None \<Rightarrow> post a s Q | Some v \<Rightarrow> post (f v) s Q)"
  by (cases x) simp_all

lemma post_createAlert:
  "post (createAlert ty ttl msg etype eid actor sev) s Q =
     (if \<not> validAlert \<lparr>alertType = ty, title = ttl, message = msg, severity = sev,
           entityType = etype, entityId = eid, triggeredBy = actor, isRead = False,
           alertIsActive = True, expiresAt = clock s + 7 * 24 * 60 * 60 * 1000\<rparr>
      then Q (Inr None) (s\<lparr>console := console s @ [''Failed to create alert:'']\<rparr>)
      else if faults s (tick s)
      then Q (Inr None) (s\<lparr>tick := Suc (tick s), clock := clock s + int (latency s (tick s)),
              console := console s @ [''Failed to create alert:'']\<rparr>)
      else Q (Inr (Some \<lparr>alertType = ty, title = ttl, message = msg, severity = sev,
           entityType = etype, entityId = eid, triggeredBy = actor, isRead = False,
           alertIsActive = True, expiresAt = clock s + 7 * 24 * 60 * 60 * 1000\<rparr>))
          (s\<lparr>tick := Suc (tick s), clock := clock s + int (latency s (tick s)), journal := journal s @ [AlertInsert],
              alerts := alerts s @ [\<lparr>alertType = ty, title = ttl, message = msg,
                severity = sev, entityType = etype, entityId = eid, triggeredBy = actor,
                isRead = False, alertIsActive = True,
                expiresAt = clock s + 7 * 24 * 60 * 60 * 1000\<rparr>]\<rparr>))"
  by (simp add: post_def createAlert_cases Let_def)

lemma post_logActivity:
  "post (logActivity atype etype eid actor descr old new) s Q =
     (if \<not> validActivity \<lparr>actionType = atype, logEntityType = etype, logEntityId = eid,
          performedBy = actor, logDescription = descr, oldData = old, newData = new\<rparr>
      then Q (Inr ()) (s\<lparr>console := console s @ [''Failed to log activity:'']\<rparr>)
      else if faults s (tick s)
      then Q (Inr ()) (s\<lparr>tick := Suc (tick s), clock := clock s + int (latency s (tick s)),
              console := console s @ [''Failed to log activity:'']\<rparr>)
      else Q (Inr ()) (s\<lparr>tick := Suc (tick s), clock := clock s + int (latency s (tick s)), journal := journal s @ [ActivityInsert],
              activityLogs := activityLogs s @ [\<lparr>actionType = atype, logEntityType = etype,
                logEntityId = eid, performedBy = actor, logDescription = descr,
                oldData = old, newData = new\<rparr>]\<rparr>))"
  by (simp add: post_def logActivity_cases Let_def)

lemmas eval_rules = post_simps post_user_simps post_if post_case_option post_createAlert
  post_logActivity

lemmas eval_routes = postMedicine_def putMedicine_def deleteMedicine_def postIssuance_def
  putUser_def deleteUser_def checkAndCreateStockAlerts_def createMedicineAlert_def
  createUserAlert_def whenA_def Let_def

lemmas eval_data = validAlert_def validActivity_def validMedicine_def validIssuance_def
  validIssueBody_def validMedicineBody_def validUpdateBody_def validUserBody_def
  alertTypeEnum_def severityEnum_def entityTypeEnum_def actionTypeEnum_def
  categoryEnum_def issuedToEnum_def lengthIn_def maxLen_def optionally_def nullish_def
  barcodeIndexClash_def medicineAlerts_def userAlerts_def noInfo_def numberOr_def
  stringOr_def showInt_def digitsOf.simps toDateString_def addDays_def dayMs_def
  setDatePlus_def
  insufficientStock_def errorCode_def parsedStockToAdd_def bodyQuantityAbove_def
  addStock_def assignFields_def assignUser_def isAccepted_def valueOr_def

lemma scenario_run:
  "post (postMedicine 7 newParacetamol) emptyStore (\<lambda>_ s1.
   post (postIssuance 7 (issueRequest 2)) s1 (\<lambda>_ s2.
   post (putMedicine 7 1 (noChange\<lparr>u_stockToAdd := Some 20\<rparr>)) s2 (\<lambda>_ s3.
     map (\<lambda>m. (quantity m, initialStock m, stockOut m)) (medicines s3) = [(23, 25, 2)] \<and>
     map alertType (alerts s3) =
       [''medicine_added'', ''stock_low'', ''medicine_issued'', ''stock_low''])))"
  unfolding eval_routes emptyStore_def newParacetamol_def issueRequest_def noChange_def
  by (simp add: eval_rules eval_data stockOut_def cong: post_weak_cong)

lemma scenario_serve:
  "map (\<lambda>m. (quantity m, initialStock m, stockOut m)) (medicines (serve scenario emptyStore))
     = [(23, 25, 2)] \<and>
   map alertType (alerts (serve scenario emptyStore)) =
     [''medicine_added'', ''stock_low'', ''medicine_issued'', ''stock_low'']"
  using scenario_run by (simp add: post_unfold scenario_def)

lemma restock_run:
  "post (putMedicine 7 1 (noChange\<lparr>u_stockToAdd := Some 20\<rparr>)) pharmacy (\<lambda>r s'.
     r = Inr (200, MedicineJson
           (paracetamol\<lparr>quantity := 25, initialStock := 25, updatedBy := Some 7\<rparr>)) \<and>
     quantityOf 1 s' = Some 25 \<and> alerts s' = [])"
  unfolding eval_routes pharmacy_def paracetamol_def noChange_def
  by (simp add: eval_rules eval_data quantityOf_def cong: post_weak_cong)

section \<open>Properties kept by every action\<close>

lemma find_in_set: "find P xs = Some x \<Longrightarrow> x \<in> set xs \<and> P x"
  by (induction xs) (auto split: if_splits)

lemma preserves_ret: "preserves I (ret x)"
  by (simp add: preserves_def ret_def)

lemma preserves_throw: "preserves I (throw e)"
  by (simp add: preserves_def throw_def)

lemma preserves_andThen:
  assumes "preserves I m" and "\<And>x. preserves I (f x)"
  shows "preserves I (andThen m f)"
  unfolding preserves_def
proof (intro allI impI)
  fix s assume "I s"
  with assms(1) have 1: "I (snd (m s))" by (simp add: preserves_def)
  show "I (snd (andThen m f s))"
  proof (cases "m s")
    case (Pair r s1)
    with 1 have "I s1" by simp
    with assms(2) have "\<And>x. I (snd (f x s1))" by (simp add: preserves_def)
    with Pair \<open>I s1\<close> show ?thesis by (cases r) (simp_all add: andThen_def)
  qed
qed

lemma preserves_tryCatch:
  assumes "preserves I m" and "\<And>e. preserves I (h e)"
  shows "preserves I (tryCatch m h)"
  unfolding preserves_def
proof (intro allI impI)
  fix s assume "I s"
  with assms(1) have 1: "I (snd (m s))" by (simp add: preserves_def)
  show "I (snd (tryCatch m h s))"
  proof (cases "m s")
    case (Pair r s1)
    with 1 have "I s1" by simp
    with assms(2) have "\<And>e. I (snd (h e s1))" by (simp add: preserves_def)
    with Pair \<open>I s1\<close> show ?thesis by (cases r) (simp_all add: tryCatch_def)
  qed
qed

lemma preserves_if:
  "(c \<Longrightarrow> preserves I a) \<Longrightarrow> (\<not> c \<Longrightarrow> preserves I b) \<Longrightarrow> preserves I (if c then a else b)"
  by simp

lemma preserves_case_option:
  "(x = None \<Longrightarrow> preserves I a) \<Longrightarrow> (\<And>v. x = Some v \<Longrightarrow> preserves I (f v)) \<Longrightarrow>
   preserves I (case x of None \<Rightarrow> a | Some v \<Rightarrow> f v)"
  by (cases x) simp_all

lemma medOnlyD: "medOnly I \<Longrightarrow> medicines s' = medicines s \<Longrightarrow> I s \<Longrightarrow> I s'"
  unfolding medOnly_def by blast

lemma preserves_unchanged:
  assumes "medOnly I" and "\<And>s. medicines (snd (m s)) = medicines s"
  shows "preserves I m"
  unfolding preserves_def using medOnlyD[OF assms(1) assms(2)] by blast

lemma preserves_side:
  assumes "medOnly I" and "sideAction m"
  shows "preserves I m"
proof (rule preserves_unchanged[OF assms(1)])
  fix s
  from assms(2) obtain x s' where "m s = (Inr x, s')" "sideOnly s s'"
    unfolding sideAction_def by blast
  then show "medicines (snd (m s)) = medicines s" by (simp add: sideOnly_def)
qed

lemma preserves_now: "medOnly I \<Longrightarrow> preserves I now"
  by (rule preserves_unchanged) (simp_all add: now_def)

lemma preserves_freshId: "medOnly I \<Longrightarrow> preserves I freshId"
  by (rule preserves_unchanged) (simp_all add: freshId_def)

lemma preserves_consoleError: "medOnly I \<Longrightarrow> preserves I (consoleError msg)"
  by (rule preserves_unchanged) (simp_all add: consoleError_def)

lemma preserves_findActiveByBarcode: "medOnly I \<Longrightarrow> preserves I (findActiveByBarcode bc ex)"
  by (rule preserves_unchanged) (simp_all add: findActiveByBarcode_def)

lemma preserves_insertIssuance: "medOnly I \<Longrightarrow> preserves I (insertIssuance i)"
  by (rule preserves_unchanged)
     (simp_all add: insertIssuance_def andThen_def attempt_def record_write_def throw_def)

lemma preserves_findUserById: "medOnly I \<Longrightarrow> preserves I (findUserById i)"
  by (rule preserves_unchanged) (simp_all add: findUserById_def)

lemma preserves_findUserByEmail: "medOnly I \<Longrightarrow> preserves I (findUserByEmail e i)"
  by (rule preserves_unchanged) (simp_all add: findUserByEmail_def)

lemma preserves_countOtherAdmins: "medOnly I \<Longrightarrow> preserves I (countOtherAdmins i)"
  by (rule preserves_unchanged) (simp_all add: countOtherAdmins_def)

lemma preserves_saveUser: "medOnly I \<Longrightarrow> preserves I (saveUser u)"
  by (rule preserves_unchanged)
     (simp_all add: saveUser_def andThen_def attempt_def record_write_def)

lemma preserves_findByIdAndDelete: "medOnly I \<Longrightarrow> preserves I (findByIdAndDelete i)"
  by (rule preserves_unchanged)
     (simp_all add: findByIdAndDelete_def andThen_def attempt_def record_write_def)

lemma preserves_find:
  assumes "\<And>s m. I s \<Longrightarrow> find (\<lambda>m. med_id m = i) (medicines s) = Some m \<Longrightarrow> P m"
    and "preserves I (f None)" and "\<And>m. P m \<Longrightarrow> med_id m = i \<Longrightarrow> preserves I (f (Some m))"
  shows "preserves I (andThen (findMedicineById i) f)"
  unfolding preserves_def
proof (intro allI impI)
  fix s assume I: "I s"
  show "I (snd (andThen (findMedicineById i) f s))"
  proof (cases "find (\<lambda>m. med_id m = i) (medicines s)")
    case None
    with assms(2) I show ?thesis
      by (simp add: andThen_def findMedicineById_def preserves_def)
  next
    case (Some m)
    with assms(1)[OF I Some] assms(3)[of m] I find_in_set[OF Some] show ?thesis
      by (simp add: andThen_def findMedicineById_def preserves_def)
  qed
qed

lemma preserves_updateMedicine:
  assumes "\<And>s. I s \<Longrightarrow> validMedicine m \<Longrightarrow> \<not> barcodeIndexClash m (medicines s) \<Longrightarrow>
     I (s\<lparr>medicines := map (\<lambda>m'. if med_id m' = med_id m then m else m') (medicines s)\<rparr>)"
    and "medOnly I"
  shows "preserves I (updateMedicine m)"
  unfolding preserves_def
proof (intro allI impI)
  fix s assume I: "I s"
  have *: "medicines (snd (updateMedicine m s)) = medicines s \<or>
     (validMedicine m \<and> \<not> barcodeIndexClash m (medicines s) \<and>
      medicines (snd (updateMedicine m s)) =
        map (\<lambda>m'. if med_id m' = med_id m then m else m') (medicines s))"
    by (simp add: updateMedicine_def andThen_def attempt_def record_write_def throw_def)
  from * show "I (snd (updateMedicine m s))"
  proof
    assume "medicines (snd (updateMedicine m s)) = medicines s"
    with I assms(2) show ?thesis by (blast intro: medOnlyD)
  next
    assume a: "validMedicine m \<and> \<not> barcodeIndexClash m (medicines s) \<and>
      medicines (snd (updateMedicine m s)) =
        map (\<lambda>m'. if med_id m' = med_id m then m else m') (medicines s)"
    then have "I (s\<lparr>medicines := map (\<lambda>m'. if med_id m' = med_id m then m else m') (medicines s)\<rparr>)"
      using assms(1)[OF I] by simp
    moreover have "medicines (snd (updateMedicine m s)) =
       medicines (s\<lparr>medicines := map (\<lambda>m'. if med_id m' = med_id m then m else m') (medicines s)\<rparr>)"
      using a by simp
    ultimately show ?thesis using assms(2) by (blast intro: medOnlyD)
  qed
qed

lemma preserves_insertMedicine:
  assumes "\<And>s. I s \<Longrightarrow> validMedicine m \<Longrightarrow> \<not> barcodeIndexClash m (medicines s) \<Longrightarrow>
     I (s\<lparr>medicines := medicines s @ [m]\<rparr>)"
    and "medOnly I"
  shows "preserves I (insertMedicine m)"
  unfolding preserves_def
proof (intro allI impI)
  fix s assume I: "I s"
  have *: "medicines (snd (insertMedicine m s)) = medicines s \<or>
     (validMedicine m \<and> \<not> barcodeIndexClash m (medicines s) \<and>
      medicines (snd (insertMedicine m s)) = medicines s @ [m])"
    by (simp add: insertMedicine_def andThen_def attempt_def record_write_def throw_def)
  from * show "I (snd (insertMedicine m s))"
  proof
    assume "medicines (snd (insertMedicine m s)) = medicines s"
    with I assms(2) show ?thesis by (blast intro: medOnlyD)
  next
    assume a: "validMedicine m \<and> \<not> barcodeIndexClash m (medicines s) \<and>
      medicines (snd (insertMedicine m s)) = medicines s @ [m]"
    then have "I (s\<lparr>medicines := medicines s @ [m]\<rparr>)"
      using assms(1)[OF I] by simp
    moreover have "medicines (snd (insertMedicine m s)) =
       medicines (s\<lparr>medicines := medicines s @ [m]\<rparr>)"
      using a by simp
    ultimately show ?thesis using assms(2) by (blast intro: medOnlyD)
  qed
qed

lemmas preserves_frame = preserves_ret preserves_throw preserves_now preserves_freshId
  preserves_consoleError preserves_findActiveByBarcode preserves_insertIssuance
  preserves_findUserById preserves_findUserByEmail preserves_countOtherAdmins
  preserves_saveUser preserves_findByIdAndDelete
  preserves_side[OF _ sideAction_logActivity] preserves_side[OF _ sideAction_createMedicineAlert]
  preserves_side[OF _ sideAction_createUserAlert] preserves_side[OF _ sideAction_check]
  preserves_side[OF _ sideAction_whenA[OF sideAction_createMedicineAlert]]
  preserves_tryCatch preserves_if preserves_case_option

section \<open>The stockOut invariant\<close>

lemma medOnly_stockInv: "medOnly stockInv"
  by (simp add: medOnly_def stockInv_def)

lemma stockInv_find:
  "stockInv s \<Longrightarrow> find (\<lambda>m. med_id m = i) (medicines s) = Some m \<Longrightarrow> recInv m"
  by (auto simp: stockInv_def list_all_iff dest!: find_in_set)

lemma stockInv_update:
  "(validMedicine m \<Longrightarrow> recInv m) \<Longrightarrow> preserves stockInv (updateMedicine m)"
  by (rule preserves_updateMedicine) (auto simp: stockInv_def list_all_iff medOnly_stockInv)

lemma stockInv_insert:
  "(validMedicine m \<Longrightarrow> recInv m) \<Longrightarrow> preserves stockInv (insertMedicine m)"
  by (rule preserves_insertMedicine) (auto simp: stockInv_def list_all_iff medOnly_stockInv)

lemmas stockInv_rules = preserves_frame medOnly_stockInv
  preserves_find[where P = recInv, OF stockInv_find] stockInv_update stockInv_insert
  preserves_andThen

lemma stockInv_postIssuance: "preserves stockInv (postIssuance actor b)"
  unfolding postIssuance_def Let_def
  apply (intro stockInv_rules)
  apply (auto simp: recInv_def validMedicine_def validIssueBody_def split: if_splits)
  done

lemma stockInv_postMedicine: "preserves stockInv (postMedicine actor b)"
  unfolding postMedicine_def Let_def
  apply (intro stockInv_rules)
  apply (auto simp: recInv_def validMedicine_def split: if_splits)
  done

lemma stockInv_putMedicine: "preserves stockInv (putMedicine actor i b)"
  unfolding putMedicine_def Let_def
  apply (intro stockInv_rules)
  apply (auto simp: recInv_def validMedicine_def addStock_def assignFields_def split: if_splits)
  done

lemma stockInv_deleteMedicine: "preserves stockInv (deleteMedicine actor i)"
  unfolding deleteMedicine_def Let_def
  apply (intro stockInv_rules)
  apply (auto simp: recInv_def validMedicine_def split: if_splits)
  done

lemma stockInv_putUser: "preserves stockInv (putUser actor i b)"
  unfolding putUser_def Let_def
  by (intro stockInv_rules)

lemma stockInv_deleteUser: "preserves stockInv (deleteUser actor i)"
  unfolding deleteUser_def Let_def
  by (intro stockInv_rules)

lemma stockInv_handle: "stockInv s \<Longrightarrow> stockInv (handle r s)"
  using stockInv_postIssuance stockInv_postMedicine stockInv_putMedicine
    stockInv_deleteMedicine stockInv_putUser stockInv_deleteUser
  by (cases r) (simp_all add: preserves_def, simp add: stockInv_def)

lemma stockInv_serve: "stockInv s \<Longrightarrow> stockInv (serve rs s)"
  by (induction rs arbitrary: s) (simp_all add: stockInv_handle)

lemma stockOut_eq: "stockOut m = initialStock m - quantity m"
  by (simp add: stockOut_def)

text \<open>
  C9. From any store in which every medicine has \<open>0 \<le> quantity \<le> initialStock\<close> (the
  empty store is one), after any sequence of requests (creations, updates with or without
  a stock delta, issues, deletions, user requests, time passing, with any failures of the
  store) every medicine has \<open>stockOut = initialStock - quantity\<close> and \<open>stockOut \<ge> 0\<close>.
\<close>

theorem stockOut_never_negative:
  assumes "stockInv s"
  shows "list_all (\<lambda>m. stockOut m = initialStock m - quantity m \<and> 0 \<le> stockOut m)
           (medicines (serve rs s))"
  using stockInv_serve[OF assms, of rs]
  by (auto simp: stockInv_def recInv_def list_all_iff stockOut_eq)

theorem stockOut_never_negative_witness:
  "map (\<lambda>m. (quantity m, initialStock m, stockOut m)) (medicines (serve scenario emptyStore))
     = [(23, 25, 2)] \<and>
   list_all (\<lambda>m. stockOut m = initialStock m - quantity m \<and> 0 \<le> stockOut m)
     (medicines (serve scenario emptyStore))"
proof -
  have "stockInv emptyStore" by (simp add: stockInv_def emptyStore_def)
  from stockOut_never_negative[OF this, of scenario] scenario_serve show ?thesis by blast
qed

section \<open>Consistency of the stored medicines\<close>

lemma medOnly_consistent: "medOnly consistent"
  by (simp add: medOnly_def consistent_def)

lemma consistent_find:
  "consistent s \<Longrightarrow> find (\<lambda>m. med_id m = i) (medicines s) = Some m \<Longrightarrow>
   validMedicine m \<and> \<not> barcodeIndexClash m (medicines s)"
  by (auto simp: consistent_def list_all_iff dest!: find_in_set)

lemma clash_iff:
  "barcodeIndexClash x ms \<longleftrightarrow>
     barcode x \<noteq> None \<and> (\<exists>y\<in>set ms. med_id y \<noteq> med_id x \<and> barcode y = barcode x)"
  by (simp add: barcodeIndexClash_def list_ex_iff)

lemma clash_replace:
  assumes m: "\<not> barcodeIndexClash m ms" and ms: "\<forall>x\<in>set ms. \<not> barcodeIndexClash x ms"
    and x: "x \<in> set ms"
  shows "\<not> barcodeIndexClash (if med_id x = med_id m then m else x)
           (map (\<lambda>m'. if med_id m' = med_id m then m else m') ms)"
proof
  let ?f = "\<lambda>m'. if med_id m' = med_id m then m else m'"
  assume "barcodeIndexClash (?f x) (map ?f ms)"
  then obtain y where y: "y \<in> set ms" "med_id (?f y) \<noteq> med_id (?f x)"
      "barcode (?f y) = barcode (?f x)" and bx: "barcode (?f x) \<noteq> None"
    unfolding clash_iff by auto
  show False
  proof (cases "med_id x = med_id m")
    case True
    with y have "med_id y \<noteq> med_id m" "barcode y = barcode m" by (auto split: if_splits)
    with y(1) bx True have "barcodeIndexClash m ms" unfolding clash_iff by auto
    with m show False by simp
  next
    case False
    show False
    proof (cases "med_id y = med_id m")
      case True
      with y False have "barcode m = barcode x" by simp
      with x bx False have "barcodeIndexClash m ms" unfolding clash_iff by auto
      with m show False by simp
    next
      case yF: False
      with y False have "med_id y \<noteq> med_id x" "barcode y = barcode x" by simp_all
      with y(1) bx False have "barcodeIndexClash x ms" unfolding clash_iff by auto
      with ms x show False by simp
    qed
  qed
qed

lemma consistent_update_store:
  assumes "consistent s" and "validMedicine m" and "\<not> barcodeIndexClash m (medicines s)"
  shows "consistent
     (s\<lparr>medicines := map (\<lambda>m'. if med_id m' = med_id m then m else m') (medicines s)\<rparr>)"
proof -
  let ?f = "\<lambda>m'. if med_id m' = med_id m then m else m'"
  have ms: "\<forall>x\<in>set (medicines s). validMedicine x \<and> \<not> barcodeIndexClash x (medicines s)"
    using assms(1) by (simp add: consistent_def list_all_iff)
  have step: "validMedicine (?f x) \<and> \<not> barcodeIndexClash (?f x) (map ?f (medicines s))"
    if "x \<in> set (medicines s)" for x
    using clash_replace[OF assms(3), of x] ms assms(2) that by simp
  show ?thesis
    unfolding consistent_def list_all_iff
  proof
    fix x' assume "x' \<in> set (medicines (s\<lparr>medicines := map ?f (medicines s)\<rparr>))"
    then obtain x where x: "x \<in> set (medicines s)" and x': "x' = ?f x" by auto
    from step[OF x] show "validMedicine x' \<and>
        \<not> barcodeIndexClash x' (medicines (s\<lparr>medicines := map ?f (medicines s)\<rparr>))"
      unfolding x' by simp
  qed
qed

lemma consistent_insert_store:
  assumes "consistent s" and "validMedicine m" and "\<not> barcodeIndexClash m (medicines s)"
  shows "consistent (s\<lparr>medicines := medicines s @ [m]\<rparr>)"
proof -
  have ms: "\<forall>x\<in>set (medicines s). validMedicine x \<and> \<not> barcodeIndexClash x (medicines s)"
    using assms(1) by (simp add: consistent_def list_all_iff)
  have 1: "\<not> barcodeIndexClash m (medicines s @ [m])"
    using assms(3) unfolding clash_iff by auto
  have 2: "\<not> barcodeIndexClash x (medicines s @ [m])" if x: "x \<in> set (medicines s)" for x
  proof
    assume "barcodeIndexClash x (medicines s @ [m])"
    then obtain y where y: "y \<in> set (medicines s @ [m])" "med_id y \<noteq> med_id x"
        "barcode y = barcode x" and bx: "barcode x \<noteq> None"
      unfolding clash_iff by blast
    from ms x have nx: "\<not> barcodeIndexClash x (medicines s)" by simp
    have "y = m"
    proof (rule ccontr)
      assume "y \<noteq> m"
      with y(1) have "y \<in> set (medicines s)" by simp
      with y(2,3) bx have "barcodeIndexClash x (medicines s)" unfolding clash_iff by blast
      with nx show False by simp
    qed
    with y bx x have "barcodeIndexClash m (medicines s)" unfolding clash_iff by metis
    with assms(3) show False by simp
  qed
  show ?thesis using ms assms(2) 1 2 by (simp add: consistent_def list_all_iff)
qed

lemma consistent_update: "preserves consistent (updateMedicine m)"
  by (rule preserves_updateMedicine) (simp_all add: consistent_update_store medOnly_consistent)

lemma consistent_insert: "preserves consistent (insertMedicine m)"
  by (rule preserves_insertMedicine) (simp_all add: consistent_insert_store medOnly_consistent)

lemmas consistent_rules = preserves_frame medOnly_consistent
  preserves_find[where P = "\<lambda>_. True" and I = consistent] consistent_update consistent_insert
  preserves_andThen

lemma consistent_postIssuance: "preserves consistent (postIssuance actor b)"
  unfolding postIssuance_def Let_def by (intro consistent_rules TrueI)

lemma consistent_postMedicine: "preserves consistent (postMedicine actor b)"
  unfolding postMedicine_def Let_def by (intro consistent_rules TrueI)

lemma consistent_putMedicine: "preserves consistent (putMedicine actor i b)"
  unfolding putMedicine_def Let_def by (intro consistent_rules TrueI)

lemma consistent_deleteMedicine: "preserves consistent (deleteMedicine actor i)"
  unfolding deleteMedicine_def Let_def by (intro consistent_rules TrueI)

lemma consistent_putUser: "preserves consistent (putUser actor i b)"
  unfolding putUser_def Let_def by (intro consistent_rules TrueI)

lemma consistent_deleteUser: "preserves consistent (deleteUser actor i)"
  unfolding deleteUser_def Let_def by (intro consistent_rules TrueI)

lemma consistent_handle: "consistent s \<Longrightarrow> consistent (handle r s)"
  using consistent_postIssuance consistent_postMedicine consistent_putMedicine
    consistent_deleteMedicine consistent_putUser consistent_deleteUser
  by (cases r) (simp_all add: preserves_def, simp add: consistent_def)

lemma consistent_serve: "consistent s \<Longrightarrow> consistent (serve rs s)"
  by (induction rs arbitrary: s) (simp_all add: consistent_handle)

lemma consistent_emptyStore: "consistent emptyStore"
  by (simp add: consistent_def emptyStore_def)

lemma reachable_consistent: "consistent (serve rs emptyStore) \<and> stockInv (serve rs emptyStore)"
  using consistent_serve[OF consistent_emptyStore] stockInv_serve[of emptyStore rs]
  by (simp add: stockInv_def emptyStore_def)

section \<open>Issuing medicine\<close>

lemma find_replace:
  "find (\<lambda>m. med_id m = i) ms = Some m \<Longrightarrow> med_id m1 = med_id m \<Longrightarrow>
   find (\<lambda>m. med_id m = i) (map (\<lambda>m'. if med_id m' = med_id m1 then m1 else m') ms) = Some m1"
  by (induction ms) (auto split: if_splits)

lemma validIssuance_body:
  "validIssueBody b \<Longrightarrow>
   validIssuance \<lparr>iss_id = i, medicineId = i_medicineId b, issuedTo = i_issuedTo b,
      recipientName = i_recipientName b, recipientID = i_recipientID b,
      quantityIssued = i_quantityIssued b, prescribedBy = i_prescribedBy b,
      iss_notes = i_notes b, issuedBy = actor, issuedAt = t\<rparr>"
  by (auto simp: validIssueBody_def validIssuance_def lengthIn_def)

lemma postIssuance_insufficient:
  assumes "validIssueBody b"
    and "find (\<lambda>m. med_id m = i_medicineId b) (medicines s) = Some m"
    and "isActive m" and "quantity m < i_quantityIssued b"
  shows "postIssuance actor b s =
     (Inr (400, Message (''Insufficient stock. Available: '' @ showInt (quantity m)
         @ '', Requested: '' @ showInt (i_quantityIssued b))), s)"
proof -
  have "post (postIssuance actor b) s (\<lambda>r s'.
          r = Inr (400, Message (''Insufficient stock. Available: '' @ showInt (quantity m)
                @ '', Requested: '' @ showInt (i_quantityIssued b))) \<and> s' = s)"
    using assms by (simp add: postIssuance_def post_simps Let_def insufficientStock_def)
  then show ?thesis by (simp add: post_def split: prod.splits)
qed

lemma postIssuance_expired:
  assumes "validIssueBody b"
    and "find (\<lambda>m. med_id m = i_medicineId b) (medicines s) = Some m"
    and "isActive m" and "i_quantityIssued b \<le> quantity m" and "expiryDate m \<le> clock s"
  shows "postIssuance actor b s = (Inr (400, Message ''Cannot issue expired medicine''), s)"
proof -
  have "post (postIssuance actor b) s (\<lambda>r s'.
          r = Inr (400, Message ''Cannot issue expired medicine'') \<and> s' = s)"
    using assms by (simp add: postIssuance_def post_simps Let_def)
  then show ?thesis by (simp add: post_def split: prod.splits)
qed

lemma postIssuance_success:
  assumes "validIssueBody b"
    and "find (\<lambda>m. med_id m = i_medicineId b) (medicines s) = Some m"
    and "isActive m" and "i_quantityIssued b \<le> quantity m" and "clock s < expiryDate m"
    and "validMedicine m" and "\<not> barcodeIndexClash m (medicines s)"
    and "\<not> faults s (tick s)" and "\<not> faults s (Suc (tick s))"
  shows "post (postIssuance actor b) s (\<lambda>r s'.
     r = Inr (201, IssuanceJson \<lparr>iss_id = nextId s, medicineId = i_medicineId b,
            issuedTo = i_issuedTo b, recipientName = i_recipientName b,
            recipientID = i_recipientID b, quantityIssued = i_quantityIssued b,
            prescribedBy = i_prescribedBy b, iss_notes = i_notes b, issuedBy = actor,
            issuedAt = clock s\<rparr>) \<and>
     find (\<lambda>m. med_id m = i_medicineId b) (medicines s') =
       Some (m\<lparr>quantity := quantity m - i_quantityIssued b, updatedBy := Some actor\<rparr>))"
proof -
  let ?m1 = "m\<lparr>quantity := quantity m - i_quantityIssued b, updatedBy := Some actor\<rparr>"
  have v1: "validMedicine ?m1" using assms(4,6) by (simp add: validMedicine_def)
  have c1: "\<not> barcodeIndexClash ?m1 (medicines s)"
    using assms(7) by (simp add: barcodeIndexClash_def)
  have f1: "find (\<lambda>m. med_id m = i_medicineId b)
       (map (\<lambda>m'. if med_id m' = med_id m then ?m1 else m') (medicines s)) = Some ?m1"
    using find_replace[OF assms(2), of ?m1] by simp
  show ?thesis
    using assms v1 c1 f1
    apply (simp add: postIssuance_def post_simps Let_def validIssuance_body)
    apply (rule post_side, rule sideAction_logActivity)
    apply (simp add: post_simps)
    apply (rule post_side, rule sideAction_createMedicineAlert)
    apply (simp add: post_simps)
    apply (rule post_side, rule sideAction_check)
    apply (simp add: post_simps sideOnly_def)
    done
qed

text \<open>
  C1. Issuing \<open>q\<close> units of an active medicine with \<open>n\<close> on hand: when \<open>n \<ge> q\<close>, the
  medicine is not expired and a consistent store accepts the two writes of the route, the
  request succeeds with status 201 and the record then holds \<open>n - q\<close>, whatever happens to
  the activity log and the alerts; when \<open>q > n\<close> the request is rejected with status 400
  and the message \<open>Insufficient stock. Available: n, Requested: q\<close>, and the store is
  left as it was.
\<close>

theorem issue_medicine_stock:
  assumes "validIssueBody b"
    and "find (\<lambda>m. med_id m = i_medicineId b) (medicines s) = Some m"
    and "isActive m"
  shows "(i_quantityIssued b \<le> quantity m \<and> clock s < expiryDate m \<and> consistent s \<and>
          \<not> faults s (tick s) \<and> \<not> faults s (Suc (tick s)) \<longrightarrow>
          (\<exists>iss s'. postIssuance actor b s = (Inr (201, IssuanceJson iss), s') \<and>
             map_option quantity (find (\<lambda>m. med_id m = i_medicineId b) (medicines s'))
               = Some (quantity m - i_quantityIssued b)))
       \<and> (quantity m < i_quantityIssued b \<longrightarrow>
          postIssuance actor b s =
            (Inr (400, Message (''Insufficient stock. Available: '' @ showInt (quantity m)
                @ '', Requested: '' @ showInt (i_quantityIssued b))), s))"
proof (intro conjI impI)
  assume h0: "i_quantityIssued b \<le> quantity m \<and> clock s < expiryDate m \<and> consistent s \<and>
          \<not> faults s (tick s) \<and> \<not> faults s (Suc (tick s))"
  with consistent_find[OF _ assms(2)]
  have h: "i_quantityIssued b \<le> quantity m \<and> clock s < expiryDate m \<and>
          validMedicine m \<and> \<not> barcodeIndexClash m (medicines s) \<and>
          \<not> faults s (tick s) \<and> \<not> faults s (Suc (tick s))"
    by simp
  from post_result[OF postIssuance_success[OF assms, of actor]] h
  obtain r s' where "postIssuance actor b s = (r, s')"
    and "r = Inr (201, IssuanceJson \<lparr>iss_id = nextId s, medicineId = i_medicineId b,
            issuedTo = i_issuedTo b, recipientName = i_recipientName b,
            recipientID = i_recipientID b, quantityIssued = i_quantityIssued b,
            prescribedBy = i_prescribedBy b, iss_notes = i_notes b, issuedBy = actor,
            issuedAt = clock s\<rparr>)"
    and "find (\<lambda>m. med_id m = i_medicineId b) (medicines s') =
       Some (m\<lparr>quantity := quantity m - i_quantityIssued b, updatedBy := Some actor\<rparr>)"
    by blast
  then show "\<exists>iss s'. postIssuance actor b s = (Inr (201, IssuanceJson iss), s') \<and>
             map_option quantity (find (\<lambda>m. med_id m = i_medicineId b) (medicines s'))
               = Some (quantity m - i_quantityIssued b)"
    by auto
next
  assume "quantity m < i_quantityIssued b"
  with assms show "postIssuance actor b s =
            (Inr (400, Message (''Insufficient stock. Available: '' @ showInt (quantity m)
                @ '', Requested: '' @ showInt (i_quantityIssued b))), s)"
    by (rule postIssuance_insufficient)
qed

theorem issue_medicine_stock_witness:
  "(\<exists>iss s'. postIssuance 7 (issueRequest 2) pharmacy = (Inr (201, IssuanceJson iss), s') \<and>
      map_option quantity (find (\<lambda>m. med_id m = 1) (medicines s')) = Some 3)
   \<and> postIssuance 7 (issueRequest 9) pharmacy =
       (Inr (400, Message ''Insufficient stock. Available: 5, Requested: 9''), pharmacy)"
  using issue_medicine_stock[of "issueRequest 2" pharmacy paracetamol 7]
        issue_medicine_stock[of "issueRequest 9" pharmacy paracetamol 7]
  by (simp add: issueRequest_def pharmacy_def paracetamol_def validIssueBody_def
      issuedToEnum_def lengthIn_def maxLen_def consistent_def validMedicine_def
      categoryEnum_def barcodeIndexClash_def showInt_def digitsOf.simps)

text \<open>
  C10. When an active medicine is both expired and short of the requested amount, the
  answer is the insufficient-stock error: the stock check comes before the expiry check.
  In both failure cases (short of stock; enough stock but expired) the route answers 400
  and leaves the whole store as it was: no collection is written.
\<close>

theorem issue_rejections_order:
  assumes "validIssueBody b"
    and "find (\<lambda>m. med_id m = i_medicineId b) (medicines s) = Some m"
    and "isActive m"
  shows "(quantity m < i_quantityIssued b \<and> expiryDate m \<le> clock s \<longrightarrow>
          postIssuance actor b s =
            (Inr (400, Message (''Insufficient stock. Available: '' @ showInt (quantity m)
                @ '', Requested: '' @ showInt (i_quantityIssued b))), s))
       \<and> (quantity m < i_quantityIssued b \<longrightarrow> snd (postIssuance actor b s) = s)
       \<and> (i_quantityIssued b \<le> quantity m \<and> expiryDate m \<le> clock s \<longrightarrow>
          postIssuance actor b s = (Inr (400, Message ''Cannot issue expired medicine''), s))"
  using postIssuance_insufficient[OF assms, of actor] postIssuance_expired[OF assms, of actor]
  by simp

theorem issue_rejections_order_witness:
  "postIssuance 7 (issueRequest 9) (pharmacy\<lparr>clock := 9000000000\<rparr>) =
     (Inr (400, Message ''Insufficient stock. Available: 5, Requested: 9''),
      pharmacy\<lparr>clock := 9000000000\<rparr>)
   \<and> postIssuance 7 (issueRequest 2) (pharmacy\<lparr>clock := 9000000000\<rparr>) =
     (Inr (400, Message ''Cannot issue expired medicine''), pharmacy\<lparr>clock := 9000000000\<rparr>)"
  using issue_rejections_order
          [of "issueRequest 9" "pharmacy\<lparr>clock := 9000000000\<rparr>" paracetamol 7]
        issue_rejections_order
          [of "issueRequest 2" "pharmacy\<lparr>clock := 9000000000\<rparr>" paracetamol 7]
  by (simp add: issueRequest_def pharmacy_def paracetamol_def validIssueBody_def
      issuedToEnum_def lengthIn_def maxLen_def showInt_def digitsOf.simps)

section \<open>The order of writes, and the routes that lower a quantity\<close>

lemma issue_journal:
  "post (postIssuance actor b) s (\<lambda>r s'. \<forall>body. r = Inr (201, body) \<longrightarrow>
     (\<exists>i ws. journal s' = journal s @ IssuanceInsert i # MedicineUpdate (i_medicineId b) # ws \<and>
        set ws \<subseteq> {ActivityInsert, AlertInsert}))"
  apply (simp add: postIssuance_def post_steps Let_def split: option.split)
  apply (intro conjI impI allI)
  apply (rule post_sideReturns, (rule side_tail)+)
  apply (auto simp: sideOnly_def dest!: find_in_set)
  done

lemma medOnly_noDecrease: "medOnly (noDecrease s0)"
  by (simp add: medOnly_def noDecrease_def quantityOf_def)

lemma noDecrease_refl: "noDecrease s s"
  by (simp add: noDecrease_def)

lemma find_map_replace:
  "med_id m1 = k \<Longrightarrow>
   find (\<lambda>m. med_id m = i) (map (\<lambda>m'. if med_id m' = k then m1 else m') ms) =
     map_option (\<lambda>m'. if med_id m' = k then m1 else m') (find (\<lambda>m. med_id m = i) ms)"
  by (induction ms) auto

lemma find_append_old:
  "find P xs = Some x \<Longrightarrow> find P (xs @ ys) = Some x"
  by (induction xs) (auto split: if_splits)

lemma noDecrease_find:
  assumes "noDecrease s0 s" and "find (\<lambda>m. med_id m = i) (medicines s) = Some m"
  shows "atLeastStored s0 m"
  unfolding atLeastStored_def
proof (intro allI impI)
  fix q0 assume q0: "quantityOf (med_id m) s0 = Some q0"
  have i: "med_id m = i" using find_in_set[OF assms(2)] by simp
  from assms(2) i have "quantityOf (med_id m) s = Some (quantity m)"
    by (simp add: quantityOf_def)
  moreover from assms(1) q0 obtain q where "quantityOf (med_id m) s = Some q" "q0 \<le> q"
    unfolding noDecrease_def by blast
  ultimately show "q0 \<le> quantity m" by simp
qed

lemma noDecrease_update:
  assumes "atLeastStored s0 m"
  shows "preserves (noDecrease s0) (updateMedicine m)"
proof (rule preserves_updateMedicine[OF _ medOnly_noDecrease])
  fix s assume I: "noDecrease s0 s"
  show "noDecrease s0
     (s\<lparr>medicines := map (\<lambda>m'. if med_id m' = med_id m then m else m') (medicines s)\<rparr>)"
    unfolding noDecrease_def
  proof (intro allI impI)
    fix i q0 assume q0: "quantityOf i s0 = Some q0"
    with I obtain q where q: "quantityOf i s = Some q" "q0 \<le> q"
      unfolding noDecrease_def by blast
    then obtain m' where m': "find (\<lambda>m. med_id m = i) (medicines s) = Some m'" "quantity m' = q"
      by (auto simp: quantityOf_def)
    have i: "med_id m' = i" using find_in_set[OF m'(1)] by simp
    show "\<exists>q. quantityOf i
            (s\<lparr>medicines := map (\<lambda>m'. if med_id m' = med_id m then m else m') (medicines s)\<rparr>)
          = Some q \<and> q0 \<le> q"
    proof (cases "med_id m' = med_id m")
      case True
      with assms q0 i have "q0 \<le> quantity m" by (simp add: atLeastStored_def)
      with True m' show ?thesis by (simp add: quantityOf_def find_map_replace)
    next
      case False
      with m' q show ?thesis by (simp add: quantityOf_def find_map_replace)
    qed
  qed
qed

lemma noDecrease_insert: "preserves (noDecrease s0) (insertMedicine m)"
proof (rule preserves_insertMedicine[OF _ medOnly_noDecrease])
  fix s assume I: "noDecrease s0 s"
  show "noDecrease s0 (s\<lparr>medicines := medicines s @ [m]\<rparr>)"
    unfolding noDecrease_def
  proof (intro allI impI)
    fix i q0 assume "quantityOf i s0 = Some q0"
    with I obtain q where q: "quantityOf i s = Some q" "q0 \<le> q"
      unfolding noDecrease_def by blast
    then obtain m' where "find (\<lambda>m. med_id m = i) (medicines s) = Some m'" "quantity m' = q"
      by (auto simp: quantityOf_def)
    with q show "\<exists>q. quantityOf i (s\<lparr>medicines := medicines s @ [m]\<rparr>) = Some q \<and> q0 \<le> q"
      by (simp add: quantityOf_def find_append_old)
  qed
qed

lemmas noDecrease_rules = preserves_frame medOnly_noDecrease
  preserves_find[where P = "atLeastStored s0" and I = "noDecrease s0" for s0, OF noDecrease_find]
  noDecrease_update noDecrease_insert preserves_andThen

lemma noDecrease_postMedicine: "preserves (noDecrease s0) (postMedicine actor b)"
  unfolding postMedicine_def Let_def
  by (intro noDecrease_rules)

lemma noDecrease_putMedicine: "preserves (noDecrease s0) (putMedicine actor i b)"
  unfolding putMedicine_def Let_def
  apply (intro noDecrease_rules)
  apply (auto simp: atLeastStored_def addStock_def assignFields_def split: if_splits)
  done

lemma noDecrease_deleteMedicine: "preserves (noDecrease s0) (deleteMedicine actor i)"
  unfolding deleteMedicine_def Let_def
  apply (intro noDecrease_rules)
  apply (auto simp: atLeastStored_def)
  done

lemma noDecrease_putUser: "preserves (noDecrease s0) (putUser actor i b)"
  unfolding putUser_def Let_def
  by (intro noDecrease_rules)

lemma noDecrease_deleteUser: "preserves (noDecrease s0) (deleteUser actor i)"
  unfolding deleteUser_def Let_def
  by (intro noDecrease_rules)

lemma noDecrease_handle:
  assumes "\<And>a b. r \<noteq> IssueMedicine a b"
  shows "noDecrease s (handle r s)"
proof (cases r)
  case (IssueMedicine a b)
  with assms[of a b] show ?thesis by simp
next
  case (Elapse d)
  then show ?thesis
    using medOnlyD[OF medOnly_noDecrease _ noDecrease_refl, of "handle r s" s] by simp
qed (use noDecrease_postMedicine[of s] noDecrease_putMedicine[of s]
      noDecrease_deleteMedicine[of s] noDecrease_putUser[of s] noDecrease_deleteUser[of s]
      noDecrease_refl[of s] in \<open>simp_all add: preserves_def\<close>)

text \<open>
  C2, as amended. In every successful issue (status 201) the route first appends the
  issuance to the ledger and then writes the decremented medicine: the journal grows by
  the ledger insert, then the medicine update, then activity-log and alert inserts only.
  No request other than an issue lowers the quantity of a stored medicine or removes it.
\<close>

theorem issue_write_order:
  "(postIssuance actor b s = (Inr (201, body), s') \<longrightarrow>
      (\<exists>i ws. journal s' = journal s @ IssuanceInsert i # MedicineUpdate (i_medicineId b) # ws \<and>
         set ws \<subseteq> {ActivityInsert, AlertInsert}))
   \<and> ((\<forall>a b'. r \<noteq> IssueMedicine a b') \<longrightarrow> noDecrease s (handle r s))"
proof (intro conjI impI)
  assume "postIssuance actor b s = (Inr (201, body), s')"
  with issue_journal[of actor b s]
  show "\<exists>i ws. journal s' = journal s @ IssuanceInsert i # MedicineUpdate (i_medicineId b) # ws \<and>
         set ws \<subseteq> {ActivityInsert, AlertInsert}"
    by (simp add: post_def)
next
  assume "\<forall>a b'. r \<noteq> IssueMedicine a b'"
  then show "noDecrease s (handle r s)" by (intro noDecrease_handle) simp
qed

lemma issue_run:
  "post (postIssuance 7 (issueRequest 2)) pharmacy (\<lambda>r s'.
     r = Inr (201, IssuanceJson \<lparr>iss_id = 100, medicineId = 1, issuedTo = ''Employee'',
           recipientName = ''Ada'', recipientID = ''E-17'', quantityIssued = 2,
           prescribedBy = ''Dr. Grace'', iss_notes = None, issuedBy = 7,
           issuedAt = 1000000000\<rparr>) \<and>
     journal s' = [IssuanceInsert 100, MedicineUpdate 1, ActivityInsert, AlertInsert,
       AlertInsert])"
  unfolding eval_routes pharmacy_def paracetamol_def issueRequest_def
  by (simp add: eval_rules eval_data cong: post_weak_cong)

lemma issue_fault_run:
  "post (postIssuance 7 (issueRequest 2)) secondWriteFails (\<lambda>r s'.
     r = Inr (500, Message ''Failed to issue medicine'') \<and>
     map quantityIssued (issuances s') = [2] \<and> quantityOf 1 s' = Some 5 \<and>
     journal s' = [IssuanceInsert 100])"
  unfolding eval_routes secondWriteFails_def pharmacy_def paracetamol_def issueRequest_def
  by (simp add: eval_rules eval_data quantityOf_def cong: post_weak_cong)

lemma ledger_entry_without_decrement:
  "fst (postIssuance 7 (issueRequest 2) secondWriteFails) =
     Inr (500, Message ''Failed to issue medicine'')
   \<and> map quantityIssued (issuances (snd (postIssuance 7 (issueRequest 2) secondWriteFails))) = [2]
   \<and> quantityOf 1 (snd (postIssuance 7 (issueRequest 2) secondWriteFails)) = Some 5"
  using issue_fault_run by (simp add: post_unfold)

theorem issue_write_order_witness:
  "(\<exists>i ws. journal (snd (postIssuance 7 (issueRequest 2) pharmacy)) =
       journal pharmacy @ IssuanceInsert i # MedicineUpdate 1 # ws \<and>
       set ws \<subseteq> {ActivityInsert, AlertInsert})
   \<and> noDecrease pharmacy
       (handle (UpdateMedicine 7 1 (noChange\<lparr>u_stockToAdd := Some 20\<rparr>)) pharmacy)"
proof -
  let ?iss = "IssuanceJson \<lparr>iss_id = 100, medicineId = 1, issuedTo = ''Employee'',
           recipientName = ''Ada'', recipientID = ''E-17'', quantityIssued = 2,
           prescribedBy = ''Dr. Grace'', iss_notes = None, issuedBy = 7,
           issuedAt = 1000000000\<rparr>"
  have "fst (postIssuance 7 (issueRequest 2) pharmacy) = Inr (201, ?iss)"
    using issue_run by (simp add: post_unfold)
  then have run: "postIssuance 7 (issueRequest 2) pharmacy =
      (Inr (201, ?iss), snd (postIssuance 7 (issueRequest 2) pharmacy))"
    by (simp add: prod_eq_iff)
  have i: "i_medicineId (issueRequest 2) = 1" by (simp add: issueRequest_def)
  show ?thesis
    using issue_write_order[where actor = 7 and b = "issueRequest 2" and s = pharmacy
        and body = ?iss and s' = "snd (postIssuance 7 (issueRequest 2) pharmacy)"
        and r = "UpdateMedicine 7 1 (noChange\<lparr>u_stockToAdd := Some 20\<rparr>)"] run i
    by simp
qed

text \<open>
  C2, the claim as stated fails: in this successful issue the ledger insert is the first
  write and the medicine update the second, so the decrement does not precede the ledger
  entry. (When the second write is refused, the ledger keeps an entry for stock that was
  never deducted, see \<open>ledger_entry_without_decrement\<close>.)
\<close>

theorem ledger_written_before_decrement:
  "fst (postIssuance 7 (issueRequest 2) pharmacy) =
     Inr (201, IssuanceJson \<lparr>iss_id = 100, medicineId = 1, issuedTo = ''Employee'',
           recipientName = ''Ada'', recipientID = ''E-17'', quantityIssued = 2,
           prescribedBy = ''Dr. Grace'', iss_notes = None, issuedBy = 7,
           issuedAt = 1000000000\<rparr>)
   \<and> journal (snd (postIssuance 7 (issueRequest 2) pharmacy)) =
       [IssuanceInsert 100, MedicineUpdate 1, ActivityInsert, AlertInsert, AlertInsert]
   \<and> precedes (IssuanceInsert 100) (MedicineUpdate 1)
       (journal (snd (postIssuance 7 (issueRequest 2) pharmacy)))
   \<and> \<not> precedes (MedicineUpdate 1) (IssuanceInsert 100)
       (journal (snd (postIssuance 7 (issueRequest 2) pharmacy)))"
  using issue_run by (simp add: post_unfold precedes_def)

section \<open>The stock-check policy\<close>



















lemma create_run:
  "post (postMedicine 7 newParacetamol) emptyStore (\<lambda>r s'.
     r = Inr (201, MedicineJson paracetamol) \<and>
     map alertType (alerts s') = [''medicine_added'', ''stock_low''])"
  unfolding eval_routes emptyStore_def newParacetamol_def paracetamol_def
  by (simp add: eval_rules eval_data cong: post_weak_cong)

lemma issue_alerts_run:
  "post (postIssuance 7 (issueRequest 2)) pharmacy (\<lambda>r s'.
     map alertType (alerts s') = [''medicine_issued'', ''stock_low''])"
  unfolding eval_routes pharmacy_def paracetamol_def issueRequest_def
  by (simp add: eval_rules eval_data cong: post_weak_cong)

text \<open>
  When the medicine expires while its expiring alert is being stored, the check emits
  both \<open>medicine_expiring\<close> and \<open>medicine_expired\<close>. When the zone's clocks move forward
  within the window, a medicine that expires exactly 30 days of 24 hours from now is not
  classified as expiring.
\<close>

lemma expiry_during_check:
  "post (checkAndCreateStockAlerts paracetamol 7) slowStore (\<lambda>r s'.
     map alertType (alerts s') = [''stock_low'', ''medicine_expiring'', ''medicine_expired''])"
  unfolding eval_routes slowStore_def pharmacy_def paracetamol_def
  by (simp add: eval_rules eval_data cong: post_weak_cong)

lemma clock_change_in_window:
  "setDatePlus (localTZA clockChange) 30 (clock clockChange) =
     addDays 30 (clock clockChange) - 3600000
   \<and> fst (checkAndCreateStockAlerts
        (paracetamol\<lparr>quantity := 50, expiryDate := addDays 30 (clock clockChange)\<rparr>) 7
        clockChange) = Inr ()
   \<and> alerts (snd (checkAndCreateStockAlerts
        (paracetamol\<lparr>quantity := 50, expiryDate := addDays 30 (clock clockChange)\<rparr>) 7
        clockChange)) = []"
proof -
  have "post (checkAndCreateStockAlerts
        (paracetamol\<lparr>quantity := 50, expiryDate := 3592000000\<rparr>) 7) clockChange
      (\<lambda>r s'. r = Inr () \<and> alerts s' = [])"
    unfolding eval_routes clockChange_def pharmacy_def paracetamol_def
    by (simp add: eval_rules eval_data cong: post_weak_cong)
  then show ?thesis
    by (simp add: post_unfold)
      (simp add: clockChange_def pharmacy_def setDatePlus_def addDays_def dayMs_def)
qed









section \<open>Best-effort side channels\<close>

text \<open>
  C8. For every input and every store, whatever the store refuses: \<open>createAlert\<close> and
  \<open>logActivity\<close> return normally (they never throw), and leave the medicines, the
  issuance ledger and the users as they were; the same holds for the alert emitters built
  on \<open>createAlert\<close>. So a failure of these side channels cannot fail or undo the mutation
  that triggered them.
\<close>

theorem side_channels_never_throw:
  "(\<exists>r s'. createAlert ty ttl msg etype eid actor sev s = (Inr r, s') \<and>
        medicines s' = medicines s \<and> issuances s' = issuances s \<and> users s' = users s)
   \<and> (\<exists>s'. logActivity atype etype eid actor descr old new s = (Inr (), s') \<and>
        medicines s' = medicines s \<and> issuances s' = issuances s \<and> users s' = users s)
   \<and> sideAction (createUserAlert act uname eid actor)
   \<and> sideAction (createMedicineAlert act mname eid actor info)
   \<and> sideAction (checkAndCreateStockAlerts m actor)"
proof -
  obtain r s1 where "createAlert ty ttl msg etype eid actor sev s = (Inr r, s1)" "sideOnly s s1"
    using sideAction_createAlert[of ty ttl msg etype eid actor sev]
    unfolding sideAction_def by blast
  moreover obtain u s2 where
    "logActivity atype etype eid actor descr old new s = (Inr u, s2)" "sideOnly s s2"
    using sideAction_logActivity[of atype etype eid actor descr old new]
    unfolding sideAction_def by blast
  ultimately show ?thesis
    using sideAction_createUserAlert sideAction_createMedicineAlert sideAction_check
    by (simp add: sideOnly_def)
qed

theorem side_channels_never_throw_witness:
  "(\<exists>r s'. createAlert ''stock_low'' ''Low Stock Alert'' ''low'' ''Medicine'' 1 7 ''warning''
        outage = (Inr r, s') \<and>
        medicines s' = medicines outage \<and> issuances s' = issuances outage \<and>
        users s' = users outage)
   \<and> (\<exists>s'. logActivity ''Issue'' ''Medicine'' 1 7 ''issued'' NoData NoData outage
        = (Inr (), s') \<and>
        medicines s' = medicines outage \<and> issuances s' = issuances outage \<and>
        users s' = users outage)"
  using side_channels_never_throw[where ty = "''stock_low''" and ttl = "''Low Stock Alert''"
      and msg = "''low''" and etype = "''Medicine''" and eid = 1 and actor = 7
      and sev = "''warning''" and s = outage
      and atype = "''Issue''" and descr = "''issued''" and old = NoData and new = NoData
      and act = "''added''" and uname = "''Bob''" and mname = "''Paracetamol''"
      and info = noInfo and m = paracetamol]
  by simp

section \<open>Restocking and the stock-entry alert\<close>

lemma body_quantity_run:
  "post (putMedicine 7 1 (noChange\<lparr>u_quantity := Some 50\<rparr>)) pharmacy (\<lambda>r s'.
     quantityOf 1 s' = Some 5 \<and> map alertType (alerts s') = [''stock_entry'', ''stock_low''])"
  unfolding eval_routes pharmacy_def paracetamol_def noChange_def
  by (simp add: eval_rules eval_data quantityOf_def cong: post_weak_cong)

text \<open>
  C4. The update route decides on the \<open>quantity\<close> field of the request body, which it never
  applies, and not on the stock it has added. A request carrying only \<open>stockToAdd = 20\<close>
  raises the paracetamol from 5 to 25 and is answered 200, and no alert at all is stored:
  the restock emits no \<open>stock_entry\<close>. A request carrying only \<open>quantity = 50\<close> leaves
  the stock at 5 and stores a \<open>stock_entry\<close> alert (followed by \<open>stock_low\<close>).
\<close>

theorem restock_without_stock_entry:
  "fst (putMedicine 7 1 (noChange\<lparr>u_stockToAdd := Some 20\<rparr>) pharmacy) =
     Inr (200, MedicineJson
           (paracetamol\<lparr>quantity := 25, initialStock := 25, updatedBy := Some 7\<rparr>))
   \<and> quantityOf 1 pharmacy = Some 5
   \<and> quantityOf 1 (snd (putMedicine 7 1 (noChange\<lparr>u_stockToAdd := Some 20\<rparr>) pharmacy)) = Some 25
   \<and> alerts (snd (putMedicine 7 1 (noChange\<lparr>u_stockToAdd := Some 20\<rparr>) pharmacy)) = []
   \<and> quantityOf 1 (snd (putMedicine 7 1 (noChange\<lparr>u_quantity := Some 50\<rparr>) pharmacy)) = Some 5
   \<and> map alertType (alerts (snd (putMedicine 7 1 (noChange\<lparr>u_quantity := Some 50\<rparr>) pharmacy)))
       = [''stock_entry'', ''stock_low'']"
  using restock_run body_quantity_run
  by (simp add: post_unfold) (simp add: quantityOf_def pharmacy_def paracetamol_def)

section \<open>User lifecycle alerts\<close>

lemma rename_run:
  "post (putUser 7 3 rename) clinic (\<lambda>r s'.
     r = Inr (200, UserJson ''User updated successfully''
           \<lparr>user_id = 3, userName = ''Robert'', email = ''bob@apms.test'',
              role = ''Pharmacist'', userIsActive = True\<rparr>) \<and>
     alerts s' = [] \<and> console s' = [''Failed to create alert:''] \<and>
     map actionType (activityLogs s') = [''Update''])"
  unfolding eval_routes clinic_def emptyStore_def rename_def
  by (simp add: eval_rules eval_data cong: post_weak_cong)

lemma delete_run:
  "post (deleteUser 7 3) clinic (\<lambda>r s'.
     r = Inr (200, Message ''User deleted successfully'') \<and>
     map (\<lambda>a. (alertType a, severity a)) (alerts s') = [(''user_deleted'', ''warning'')])"
  unfolding eval_routes clinic_def emptyStore_def
  by (simp add: eval_rules eval_data cong: post_weak_cong)

text \<open>
  A body whose email the validation library refuses is answered 400 before anything is
  read. An action name that the table of alerts only inherits, such as \<open>toString\<close>,
  reaches \<open>createAlert\<close> with undefined fields, and leaves a line on the operational
  log; a name that is not found at all does nothing.
\<close>

lemma refused_email_run:
  "post (putUser 7 3 (rename\<lparr>ub_email := Some Refused\<rparr>)) clinic (\<lambda>r s'.
     r = Inr (400, Errors) \<and> users s' = users clinic \<and> journal s' = [])"
  unfolding eval_routes clinic_def emptyStore_def rename_def
  by (simp add: eval_rules eval_data cong: post_weak_cong)

lemma inherited_action_run:
  "post (createUserAlert ''toString'' ''Bob'' 3 7) clinic (\<lambda>r s'.
     r = Inr None \<and> alerts s' = [] \<and> console s' = [''Failed to create alert:''])"
  unfolding eval_routes clinic_def emptyStore_def
  by (simp add: eval_rules eval_data objectPrototypeKeys_def cong: post_weak_cong)

lemma unknown_action_run:
  "post (createUserAlert ''promoted'' ''Bob'' 3 7) clinic (\<lambda>r s'.
     r = Inr None \<and> alerts s' = [] \<and> console s' = [])"
  unfolding eval_routes clinic_def emptyStore_def
  by (simp add: eval_rules eval_data objectPrototypeKeys_def cong: post_weak_cong)

text \<open>
  C5. A successful user update is answered 200 and stores no alert: the alert of type
  \<open>user_updated\<close> fails the schema's enumeration of types, and \<open>createAlert\<close> swallows
  the validation error, leaving only a line on the operational log. The deletion of the
  same user does store its \<open>user_deleted\<close> (warning) alert.
\<close>

theorem user_update_alert_lost:
  "fst (putUser 7 3 rename clinic) =
     Inr (200, UserJson ''User updated successfully''
           \<lparr>user_id = 3, userName = ''Robert'', email = ''bob@apms.test'',
              role = ''Pharmacist'', userIsActive = True\<rparr>)
   \<and> alerts (snd (putUser 7 3 rename clinic)) = []
   \<and> console (snd (putUser 7 3 rename clinic)) = [''Failed to create alert:'']
   \<and> map (\<lambda>a. (alertType a, severity a)) (alerts (snd (deleteUser 7 3 clinic)))
       = [(''user_deleted'', ''warning'')]"
  using rename_run delete_run by (simp add: post_unfold)

section \<open>Expiry classification in the stock check and in the reports\<close>

lemma post_getExpiryReport:
  "post getExpiryReport s Q = Q (Inr \<lparr>
        expired = sort_key expiryDate
          (filter (\<lambda>m. isActive m \<and> expiryDate m < clock s) (medicines s)),
        expiringSoon = sort_key expiryDate
          (filter (\<lambda>m. isActive m \<and> expiryDate m \<ge> clock s
                         \<and> expiryDate m \<le> setDatePlus (localTZA s) 30 (clock s))
             (medicines s)),
        expiringLater = sort_key expiryDate
          (filter (\<lambda>m. isActive m \<and> expiryDate m > setDatePlus (localTZA s) 30 (clock s)
                         \<and> expiryDate m \<le> setDatePlus (localTZA s) 60 (clock s))
             (medicines s))\<rparr>) s"
  by (simp add: getExpiryReport_def post_andThen post_now post_setDate) (simp add: post_def)

lemma post_findExpiring:
  "post findExpiring s Q =
     Q (Inr (filter (\<lambda>m. isActive m \<and> expiryDate m \<le> setDatePlus (localTZA s) 30 (clock s)
                          \<and> expiryDate m > clock s) (medicines s))) s"
  by (simp add: findExpiring_def post_andThen post_now post_setDate) (simp add: post_def)

lemma boundary_check:
  "post (checkAndCreateStockAlerts paracetamol 7) atExpiry (\<lambda>r s'.
     map alertType (alerts s') = [''stock_low'', ''medicine_expired''])"
  unfolding eval_routes atExpiry_def pharmacy_def paracetamol_def
  by (simp add: eval_rules eval_data cong: post_weak_cong)

lemma boundary_report:
  "post getExpiryReport atExpiry (\<lambda>r s'.
     r = Inr \<lparr>expired = [], expiringSoon = [paracetamol], expiringLater = []\<rparr>)"
  by (simp add: post_getExpiryReport atExpiry_def pharmacy_def paracetamol_def setDatePlus_def
      dayMs_def)

lemma boundary_listing:
  "post findExpiring atExpiry (\<lambda>r s'. r = Inr [])"
  by (simp add: post_findExpiring atExpiry_def pharmacy_def paracetamol_def setDatePlus_def
      dayMs_def)

text \<open>
  C6. At the boundary \<open>expiryDate = now\<close> the classifications differ: the stock check
  emits \<open>medicine_expired\<close> for the paracetamol (and no \<open>medicine_expiring\<close>), while the
  expiry report lists it under \<open>expiringSoon\<close> and not under \<open>expired\<close>; the expiring
  query of the dashboard and of the listings does not list it, and the \<open>isExpired\<close>
  virtual of the model is false.
\<close>

theorem expiry_boundary_disagreement:
  "expiryDate paracetamol = clock atExpiry
   \<and> map alertType (alerts (snd (checkAndCreateStockAlerts paracetamol 7 atExpiry)))
       = [''stock_low'', ''medicine_expired'']
   \<and> fst (getExpiryReport atExpiry) =
       Inr \<lparr>expired = [], expiringSoon = [paracetamol], expiringLater = []\<rparr>
   \<and> fst (findExpiring atExpiry) = Inr []
   \<and> \<not> isExpired (clock atExpiry) paracetamol"
  using boundary_check boundary_report boundary_listing
  by (simp add: post_unfold) (simp add: atExpiry_def pharmacy_def paracetamol_def isExpired_def)

section \<open>Barcode uniqueness\<close>

lemma find_ex: "list_ex P xs \<Longrightarrow> find P xs \<noteq> None"
  by (auto simp: find_None_iff list_ex_iff)

lemma find_not_ex: "\<not> list_ex P xs \<Longrightarrow> find P xs = None"
  by (auto simp: find_None_iff list_ex_iff)

lemma validMedicine_body:
  "validMedicineBody b \<Longrightarrow>
   validMedicine \<lparr>med_id = i, name = b_name b, barcode = b_barcode b,
      category = b_category b, quantity = b_quantity b, initialStock = b_quantity b,
      minQuantity = b_minQuantity b, price = b_price b, expiryDate = b_expiryDate b,
      supplier = b_supplier b, batchNumber = b_batchNumber b, description = b_description b,
      isActive = True, createdBy = actor, updatedBy = None\<rparr>"
  by (auto simp: validMedicineBody_def validMedicine_def lengthIn_def)

lemma create_active_duplicate:
  assumes "validMedicineBody b" and "b_barcode b = Some bc" and "bc \<noteq> []"
    and "list_ex (\<lambda>m. barcode m = Some bc \<and> isActive m) (medicines s)"
  shows "postMedicine actor b s =
     (Inr (400, Message ''Medicine with this barcode already exists''), s)"
proof -
  have "find (\<lambda>m. barcode m = Some bc \<and> isActive m \<and> Some (med_id m) \<noteq> None) (medicines s)
        \<noteq> None"
    using find_ex[OF assms(4)] by simp
  then have "post (postMedicine actor b) s (\<lambda>r s'.
          r = Inr (400, Message ''Medicine with this barcode already exists'') \<and> s' = s)"
    using assms(1-3) by (simp add: postMedicine_def post_steps)
  then show ?thesis by (simp add: post_def split: prod.splits)
qed

lemma create_inactive_duplicate:
  assumes "validMedicineBody b" and "b_barcode b = Some bc" and "bc \<noteq> []"
    and "\<not> list_ex (\<lambda>m. barcode m = Some bc \<and> isActive m) (medicines s)"
    and "list_ex (\<lambda>m. barcode m = Some bc) (medicines s)"
    and "list_all (\<lambda>m. med_id m \<noteq> nextId s) (medicines s)"
    and "\<not> faults s (tick s)"
  shows "post (postMedicine actor b) s (\<lambda>r s'.
          r = Inr (400, Message ''Medicine with this barcode already exists'') \<and>
          medicines s' = medicines s \<and> alerts s' = alerts s \<and>
          activityLogs s' = activityLogs s)"
proof -
  have 1: "find (\<lambda>m. barcode m = Some bc \<and> isActive m \<and> Some (med_id m) \<noteq> None)
             (medicines s) = None"
    using find_not_ex[OF assms(4)] by simp
  have 2: "list_ex (\<lambda>m. med_id m \<noteq> nextId s \<and> barcode m = Some bc) (medicines s)"
    using assms(5,6) by (auto simp: list_ex_iff list_all_iff)
  show ?thesis
    using assms(1-3,7) 1 2 validMedicine_body[OF assms(1)]
    by (simp add: postMedicine_def post_steps Let_def barcodeIndexClash_def errorCode_def)
qed

lemma create_fresh_barcode:
  assumes "validMedicineBody b" and "b_barcode b = Some bc" and "bc \<noteq> []"
    and "\<not> list_ex (\<lambda>m. barcode m = Some bc) (medicines s)"
    and "\<not> faults s (tick s)"
  shows "post (postMedicine actor b) s (\<lambda>r s'. \<exists>m.
          r = Inr (201, MedicineJson m) \<and> barcode m = Some bc \<and> isActive m \<and>
          medicines s' = medicines s @ [m])"
proof -
  have 1: "find (\<lambda>m. barcode m = Some bc \<and> isActive m \<and> Some (med_id m) \<noteq> None) (medicines s)
        = None"
    using assms(4) by (auto simp: find_None_iff list_ex_iff)
  have 2: "\<not> list_ex (\<lambda>m. med_id m \<noteq> nextId s \<and> barcode m = Some bc) (medicines s)"
    using assms(4) by (auto simp: list_ex_iff)
  show ?thesis
    using assms 1 2 validMedicine_body[OF assms(1)]
    apply (simp add: postMedicine_def post_steps Let_def barcodeIndexClash_def)
    apply (rule post_sideReturns, (rule side_tail)+)
    apply (simp add: sideOnly_def)
    done
qed

lemma update_duplicate:
  assumes "validUpdateBody ub"
    and "find (\<lambda>m. med_id m = i) (medicines s) = Some m" and "isActive m"
    and "u_barcode ub = Some bc" and "bc \<noteq> []" and "Some bc \<noteq> barcode m"
    and "list_ex (\<lambda>m'. barcode m' = Some bc \<and> isActive m' \<and> med_id m' \<noteq> i) (medicines s)"
  shows "putMedicine actor i ub s =
     (Inr (400, Message ''Medicine with this barcode already exists''), s)"
proof -
  have i: "med_id m = i" using find_in_set[OF assms(2)] by simp
  have "find (\<lambda>m'. barcode m' = Some bc \<and> isActive m' \<and> Some (med_id m') \<noteq> Some (med_id m))
          (medicines s) \<noteq> None"
    using find_ex[OF assms(7)] i by simp
  then have "post (putMedicine actor i ub) s (\<lambda>r s'.
          r = Inr (400, Message ''Medicine with this barcode already exists'') \<and> s' = s)"
    using assms(1-6) by (simp add: putMedicine_def post_steps Let_def)
  then show ?thesis by (simp add: post_def split: prod.splits)
qed

lemma nullish_optionally: "optionally P x \<Longrightarrow> P d \<Longrightarrow> P (nullish x d)"
  by (cases x) (simp_all add: optionally_def nullish_def)

lemma maxLen_assign:
  "maxLen n x \<Longrightarrow> maxLen n y \<Longrightarrow> maxLen n (case x of None \<Rightarrow> y | Some v \<Rightarrow> Some v)"
  by (cases x) (simp_all add: maxLen_def)

lemma addStock_fields:
  "name (addStock d m) = name m" "category (addStock d m) = category m"
  "price (addStock d m) = price m" "minQuantity (addStock d m) = minQuantity m"
  "supplier (addStock d m) = supplier m" "batchNumber (addStock d m) = batchNumber m"
  "description (addStock d m) = description m" "barcode (addStock d m) = barcode m"
  "med_id (addStock d m) = med_id m" "expiryDate (addStock d m) = expiryDate m"
  "isActive (addStock d m) = isActive m"
  "quantity (addStock d m) = quantity m + (if 0 < d then d else 0)"
  "initialStock (addStock d m) = initialStock m + (if 0 < d then d else 0)"
  by (simp_all add: addStock_def)

lemma validMedicine_update:
  assumes "validUpdateBody ub" and "validMedicine m"
  shows "validMedicine
    ((assignFields ub (addStock (parsedStockToAdd ub) m))\<lparr>updatedBy := Some actor\<rparr>)"
proof -
  have b: "optionally (lengthIn 1 200) (u_name ub)"
    "optionally (\<lambda>c. c \<in> set categoryEnum) (u_category ub)"
    "optionally (\<lambda>p. 0 \<le> p) (u_price ub)"
    "maxLen 200 (u_supplier ub)" "maxLen 100 (u_batchNumber ub)"
    "maxLen 500 (u_description ub)"
    using assms(1) by (simp_all add: validUpdateBody_def)
  have v: "lengthIn 1 200 (name m)" "category m \<in> set categoryEnum" "0 \<le> price m"
    "maxLen 200 (supplier m)" "maxLen 100 (batchNumber m)" "maxLen 500 (description m)"
    "0 \<le> quantity m" "0 \<le> initialStock m" "1 \<le> minQuantity m"
    using assms(2) by (auto simp: validMedicine_def lengthIn_def Suc_le_eq)
  have n: "lengthIn 1 200 (nullish (u_name ub) (name m))"
    using b(1) v(1) by (rule nullish_optionally)
  have c: "nullish (u_category ub) (category m) \<in> set categoryEnum"
    using b(2) v(2) by (rule nullish_optionally)
  have p: "0 \<le> nullish (u_price ub) (price m)"
    using b(3) v(3) by (rule nullish_optionally)
  have l: "maxLen 200 (case u_supplier ub of None \<Rightarrow> supplier m | Some v \<Rightarrow> Some v)"
    "maxLen 100 (case u_batchNumber ub of None \<Rightarrow> batchNumber m | Some v \<Rightarrow> Some v)"
    "maxLen 500 (case u_description ub of None \<Rightarrow> description m | Some v \<Rightarrow> Some v)"
    using b(4-6) v(4-6) by (simp_all add: maxLen_assign)
  from n have n': "nullish (u_name ub) (name m) \<noteq> []"
    "length (nullish (u_name ub) (name m)) \<le> 200"
    by (auto simp: lengthIn_def)
  show ?thesis
    using n' c p l v(7-9)
    by (simp add: validMedicine_def assignFields_def addStock_fields cong: option.case_cong)
qed

lemma update_same_barcode:
  assumes "validUpdateBody ub"
    and "find (\<lambda>m. med_id m = i) (medicines s) = Some m" and "isActive m"
    and "u_barcode ub = None \<or> u_barcode ub = barcode m"
    and "validMedicine m" and "\<not> barcodeIndexClash m (medicines s)"
    and "\<not> faults s (tick s)"
  shows "post (putMedicine actor i ub) s (\<lambda>r s'. \<exists>m'.
          r = Inr (200, MedicineJson m') \<and> barcode m' = barcode m \<and> med_id m' = i)"
proof -
  let ?m3 = "(assignFields ub (addStock (parsedStockToAdd ub) m))\<lparr>updatedBy := Some actor\<rparr>"
  have i: "med_id m = i" using find_in_set[OF assms(2)] by simp
  have b3: "barcode ?m3 = barcode m" "med_id ?m3 = i"
    using assms(4) i by (auto simp: assignFields_def addStock_fields split: option.splits)
  have c3: "\<not> barcodeIndexClash ?m3 (medicines s)"
    using assms(6) b3 i by (simp add: barcodeIndexClash_def)
  have pre: "(case u_barcode ub of None \<Rightarrow> ret None
       | Some bc \<Rightarrow> if bc \<noteq> [] \<and> Some bc \<noteq> barcode m
                   then findActiveByBarcode bc (Some (med_id m)) else ret None) = ret None"
    using assms(4) by (auto split: option.splits)
  show ?thesis
    using assms(1-3,7) validMedicine_update[OF assms(1,5), of actor] c3 b3
    apply (simp add: putMedicine_def post_steps Let_def pre)
    apply (rule post_sideReturns, (rule side_tail)+)
    apply simp
    done
qed

text \<open>
  The barcode checks of the two routes, for every request and store. A create with a
  non-empty barcode is rejected with the duplicate-barcode error, before any write, when
  an active record bears the barcode. When only soft-deleted records bear it, the
  pre-check of the route, which looks at active records only, passes; the unique index
  of the schema, which covers every document, then refuses the insert, and the route
  answers with the same duplicate-barcode error, the medicines unchanged. When no record
  bears it and the store accepts the write, the create succeeds. On update the pre-check
  is made only for a barcode that differs from the record's own, and it skips the
  record's own id: a changed barcode borne by another active record is rejected before
  any write, and an update that leaves the barcode as it is succeeds (in a consistent
  store that accepts the write).
\<close>

lemma barcode_checks:
  "(validMedicineBody b \<and> b_barcode b = Some bc \<and> bc \<noteq> [] \<and>
      list_ex (\<lambda>m. barcode m = Some bc \<and> isActive m) (medicines s) \<longrightarrow>
      postMedicine actor b s =
        (Inr (400, Message ''Medicine with this barcode already exists''), s))
   \<and> (validMedicineBody b \<and> b_barcode b = Some bc \<and> bc \<noteq> [] \<and>
      \<not> list_ex (\<lambda>m. barcode m = Some bc \<and> isActive m) (medicines s) \<and>
      list_ex (\<lambda>m. barcode m = Some bc) (medicines s) \<and>
      list_all (\<lambda>m. med_id m \<noteq> nextId s) (medicines s) \<and> \<not> faults s (tick s) \<longrightarrow>
      fst (postMedicine actor b s) =
        Inr (400, Message ''Medicine with this barcode already exists'') \<and>
      medicines (snd (postMedicine actor b s)) = medicines s)
   \<and> (validMedicineBody b \<and> b_barcode b = Some bc \<and> bc \<noteq> [] \<and>
      \<not> list_ex (\<lambda>m. barcode m = Some bc) (medicines s) \<and> \<not> faults s (tick s) \<longrightarrow>
      (\<exists>m. fst (postMedicine actor b s) = Inr (201, MedicineJson m) \<and>
           barcode m = Some bc \<and> isActive m \<and>
           medicines (snd (postMedicine actor b s)) = medicines s @ [m]))
   \<and> (validUpdateBody ub \<and> find (\<lambda>m. med_id m = i) (medicines s) = Some m \<and> isActive m \<and>
      u_barcode ub = Some bc' \<and> bc' \<noteq> [] \<and> Some bc' \<noteq> barcode m \<and>
      list_ex (\<lambda>m'. barcode m' = Some bc' \<and> isActive m' \<and> med_id m' \<noteq> i) (medicines s) \<longrightarrow>
      putMedicine actor i ub s =
        (Inr (400, Message ''Medicine with this barcode already exists''), s))
   \<and> (validUpdateBody ub \<and> find (\<lambda>m. med_id m = i) (medicines s) = Some m \<and> isActive m \<and>
      (u_barcode ub = None \<or> u_barcode ub = barcode m) \<and>
      consistent s \<and> \<not> faults s (tick s) \<longrightarrow>
      (\<exists>m'. fst (putMedicine actor i ub s) = Inr (200, MedicineJson m') \<and>
            barcode m' = barcode m \<and> med_id m' = i))"
proof -
  have A: "validMedicineBody b \<and> b_barcode b = Some bc \<and> bc \<noteq> [] \<and>
      list_ex (\<lambda>m. barcode m = Some bc \<and> isActive m) (medicines s) \<longrightarrow>
      postMedicine actor b s =
        (Inr (400, Message ''Medicine with this barcode already exists''), s)"
    using create_active_duplicate[of b bc s actor] by blast
  have B: "validMedicineBody b \<and> b_barcode b = Some bc \<and> bc \<noteq> [] \<and>
      \<not> list_ex (\<lambda>m. barcode m = Some bc \<and> isActive m) (medicines s) \<and>
      list_ex (\<lambda>m. barcode m = Some bc) (medicines s) \<and>
      list_all (\<lambda>m. med_id m \<noteq> nextId s) (medicines s) \<and> \<not> faults s (tick s) \<longrightarrow>
      fst (postMedicine actor b s) =
        Inr (400, Message ''Medicine with this barcode already exists'') \<and>
      medicines (snd (postMedicine actor b s)) = medicines s"
    using create_inactive_duplicate[of b bc s actor] by (simp add: post_unfold)
  have C: "validMedicineBody b \<and> b_barcode b = Some bc \<and> bc \<noteq> [] \<and>
      \<not> list_ex (\<lambda>m. barcode m = Some bc) (medicines s) \<and> \<not> faults s (tick s) \<longrightarrow>
      (\<exists>m. fst (postMedicine actor b s) = Inr (201, MedicineJson m) \<and>
           barcode m = Some bc \<and> isActive m \<and>
           medicines (snd (postMedicine actor b s)) = medicines s @ [m])"
    using create_fresh_barcode[of b bc s actor] by (simp add: post_unfold)
  have D: "validUpdateBody ub \<and> find (\<lambda>m. med_id m = i) (medicines s) = Some m \<and> isActive m \<and>
      u_barcode ub = Some bc' \<and> bc' \<noteq> [] \<and> Some bc' \<noteq> barcode m \<and>
      list_ex (\<lambda>m'. barcode m' = Some bc' \<and> isActive m' \<and> med_id m' \<noteq> i) (medicines s) \<longrightarrow>
      putMedicine actor i ub s =
        (Inr (400, Message ''Medicine with this barcode already exists''), s)"
    using update_duplicate[of ub i s m bc' actor] by blast
  have E: "validUpdateBody ub \<and> find (\<lambda>m. med_id m = i) (medicines s) = Some m \<and> isActive m \<and>
      (u_barcode ub = None \<or> u_barcode ub = barcode m) \<and>
      consistent s \<and> \<not> faults s (tick s) \<longrightarrow>
      (\<exists>m'. fst (putMedicine actor i ub s) = Inr (200, MedicineJson m') \<and>
            barcode m' = barcode m \<and> med_id m' = i)"
    using update_same_barcode[of ub i s m actor] consistent_find[of s i m]
    by (simp add: post_unfold)
  show ?thesis
    by (intro conjI) (rule A, rule B, rule C, rule D, rule E)
qed

lemma barcode_checks_examples:
  "postMedicine 7 newParacetamol pharmacy =
     (Inr (400, Message ''Medicine with this barcode already exists''), pharmacy)
   \<and> (fst (postMedicine 7 newParacetamol archive) =
        Inr (400, Message ''Medicine with this barcode already exists'') \<and>
      medicines (snd (postMedicine 7 newParacetamol archive)) = medicines archive)
   \<and> (\<exists>m. fst (postMedicine 7 newParacetamol emptyStore) = Inr (201, MedicineJson m) \<and>
          barcode m = Some ''590123'' \<and> isActive m \<and>
          medicines (snd (postMedicine 7 newParacetamol emptyStore)) = medicines emptyStore @ [m])
   \<and> putMedicine 7 2 (noChange\<lparr>u_barcode := Some ''590123''\<rparr>) twoMedicines =
       (Inr (400, Message ''Medicine with this barcode already exists''), twoMedicines)
   \<and> (\<exists>m'. fst (putMedicine 7 1 (noChange\<lparr>u_barcode := Some ''590123''\<rparr>) pharmacy) =
          Inr (200, MedicineJson m') \<and> barcode m' = barcode paracetamol \<and> med_id m' = 1)"
proof -
  have d: "validMedicineBody newParacetamol" "b_barcode newParacetamol = Some ''590123''"
    "validUpdateBody (noChange\<lparr>u_barcode := Some ''590123''\<rparr>)"
    "u_barcode (noChange\<lparr>u_barcode := Some ''590123''\<rparr>) = Some ''590123''"
    "validMedicine paracetamol" "isActive paracetamol" "barcode paracetamol = Some ''590123''"
    "isActive ibuprofen" "barcode ibuprofen = Some ''400567''"
    by (simp_all add: newParacetamol_def validMedicineBody_def noChange_def validUpdateBody_def
        paracetamol_def ibuprofen_def validMedicine_def categoryEnum_def lengthIn_def
        maxLen_def optionally_def)
  have p: "medicines pharmacy = [paracetamol]" "\<not> faults pharmacy (tick pharmacy)"
    "medicines archive = [paracetamol\<lparr>isActive := False\<rparr>]" "\<not> faults archive (tick archive)"
    "nextId archive = 100" "medicines emptyStore = []" "\<not> faults emptyStore (tick emptyStore)"
    "medicines twoMedicines = [paracetamol, ibuprofen]"
    by (simp_all add: pharmacy_def archive_def emptyStore_def twoMedicines_def)
  have i: "med_id paracetamol = 1" "med_id ibuprofen = 2"
    by (simp_all add: paracetamol_def ibuprofen_def)
  have A: "postMedicine 7 newParacetamol pharmacy =
     (Inr (400, Message ''Medicine with this barcode already exists''), pharmacy)"
    using barcode_checks[where b = newParacetamol and bc = "''590123''"
        and s = pharmacy and actor = 7,
        THEN conjunct1]
    by (simp add: d p)
  have B: "fst (postMedicine 7 newParacetamol archive) =
        Inr (400, Message ''Medicine with this barcode already exists'') \<and>
      medicines (snd (postMedicine 7 newParacetamol archive)) = medicines archive"
    using barcode_checks[where b = newParacetamol
        and bc = "''590123''" and s = archive and actor = 7,
        THEN conjunct2, THEN conjunct1]
    by (simp add: d p i)
  have C: "\<exists>m. fst (postMedicine 7 newParacetamol emptyStore) = Inr (201, MedicineJson m) \<and>
          barcode m = Some ''590123'' \<and> isActive m \<and>
          medicines (snd (postMedicine 7 newParacetamol emptyStore)) = medicines emptyStore @ [m]"
    using barcode_checks[where b = newParacetamol and bc = "''590123''" and s = emptyStore and actor = 7,
        THEN conjunct2, THEN conjunct2, THEN conjunct1]
    by (simp add: d p)
  have D: "putMedicine 7 2 (noChange\<lparr>u_barcode := Some ''590123''\<rparr>) twoMedicines =
       (Inr (400, Message ''Medicine with this barcode already exists''), twoMedicines)"
    using barcode_checks[where ub = "noChange\<lparr>u_barcode := Some ''590123''\<rparr>" and i = 2 and s = twoMedicines
        and m = ibuprofen and bc' = "''590123''" and actor = 7,
        THEN conjunct2, THEN conjunct2, THEN conjunct2, THEN conjunct1]
    by (simp add: d p i)
  have E: "\<exists>m'. fst (putMedicine 7 1 (noChange\<lparr>u_barcode := Some ''590123''\<rparr>) pharmacy) =
          Inr (200, MedicineJson m') \<and> barcode m' = barcode paracetamol \<and> med_id m' = 1"
    using barcode_checks[where ub = "noChange\<lparr>u_barcode := Some ''590123''\<rparr>" and i = 1 and s = pharmacy
        and m = paracetamol and actor = 7,
        THEN conjunct2, THEN conjunct2, THEN conjunct2, THEN conjunct2]
    by (simp add: d p i consistent_def barcodeIndexClash_def)
  from A B C D E show ?thesis by simp
qed

lemma archive_run:
  "post (postMedicine 7 newParacetamol) archive (\<lambda>r s'.
     r = Inr (400, Message ''Medicine with this barcode already exists'') \<and>
     medicines s' = medicines archive \<and> journal s' = [])"
  unfolding eval_routes archive_def pharmacy_def paracetamol_def newParacetamol_def
  by (simp add: eval_rules eval_data cong: post_weak_cong)

text \<open>
  C7. The only record with barcode 590123 is soft-deleted, and the pre-check of the
  create route, scoped to active records, finds no duplicate. Yet creating a medicine
  with that barcode is answered 400 with the duplicate-barcode error and nothing is
  written: the unique index of the schema is over all documents, so the save is refused
  with error 11000, which the route reports as a duplicate. The same request on an empty
  store is answered 201. The route does not do what its own pre-check and the claim say:
  a soft-deleted record blocks the reuse of its barcode.
\<close>

theorem soft_deleted_barcode_blocks_create:
  "map (\<lambda>m. (barcode m, isActive m)) (medicines archive) = [(Some ''590123'', False)]
   \<and> b_barcode newParacetamol = Some ''590123''
   \<and> fst (findActiveByBarcode ''590123'' None archive) = Inr None
   \<and> fst (insertMedicine (paracetamol\<lparr>med_id := 100\<rparr>) archive) = Inl DuplicateKey
   \<and> errorCode DuplicateKey = Some 11000
   \<and> fst (postMedicine 7 newParacetamol archive) =
       Inr (400, Message ''Medicine with this barcode already exists'')
   \<and> medicines (snd (postMedicine 7 newParacetamol archive)) = medicines archive
   \<and> journal (snd (postMedicine 7 newParacetamol archive)) = []
   \<and> fst (postMedicine 7 newParacetamol emptyStore) = Inr (201, MedicineJson paracetamol)"
proof -
  have "post (insertMedicine (paracetamol\<lparr>med_id := 100\<rparr>)) archive
      (\<lambda>r s'. r = Inl DuplicateKey)"
    by (simp add: post_insertMedicine archive_def pharmacy_def paracetamol_def
        validMedicine_def categoryEnum_def maxLen_def barcodeIndexClash_def)
  with archive_run create_run show ?thesis
    by (simp add: post_unfold)
      (simp add: archive_def pharmacy_def paracetamol_def newParacetamol_def
        findActiveByBarcode_def errorCode_def)
qed

end
